theory Spec2Isabelle
  imports Complex_Main
begin

section \<open>Values, errors and tensors\<close>

text \<open>
  The model \<open>nerfstudio/models/gaussian_splatting.py\<close> renders a set of 3D Gaussians
  through an external rasterizer and optionally composites the result through two
  pretrained networks. Every exception the Python code can raise is a value of
  \<open>error\<close>; a function that may raise returns \<open>error + 'a\<close>.
  \<open>DegenerateCameraError\<close> is the name the specification uses for a failed camera
  conversion; no function of the source raises it.
\<close>

datatype error = RuntimeError | IndexError | LinAlgError | AttributeError | DegenerateCameraError

definition bind_err :: "error + 'a \<Rightarrow> ('a \<Rightarrow> error + 'b) \<Rightarrow> error + 'b" where
  "bind_err m f = (case m of Inl e \<Rightarrow> Inl e | Inr x \<Rightarrow> f x)"

text \<open>
  Tensor elements are IEEE values without rounding and without signed zeros: a real
  number, an infinity or NaN. The operations follow IEEE 754 on these values; in
  particular \<open>0 / 0\<close> is NaN and \<open>x / 0\<close> is an infinity for \<open>x \<noteq> 0\<close>.
\<close>

datatype fl = Fin real | PInf | NInf | NaN

fun fneg :: "fl \<Rightarrow> fl" where
  "fneg (Fin a) = Fin (- a)"
| "fneg PInf = NInf"
| "fneg NInf = PInf"
| "fneg NaN = NaN"

fun fadd :: "fl \<Rightarrow> fl \<Rightarrow> fl" where
  "fadd (Fin a) (Fin b) = Fin (a + b)"
| "fadd NaN y = NaN"
| "fadd x NaN = NaN"
| "fadd PInf NInf = NaN"
| "fadd NInf PInf = NaN"
| "fadd PInf y = PInf"
| "fadd x PInf = PInf"
| "fadd NInf y = NInf"
| "fadd x NInf = NInf"

definition fsub :: "fl \<Rightarrow> fl \<Rightarrow> fl" where
  "fsub x y = fadd x (fneg y)"

fun fmul :: "fl \<Rightarrow> fl \<Rightarrow> fl" where
  "fmul (Fin a) (Fin b) = Fin (a * b)"
| "fmul NaN y = NaN"
| "fmul x NaN = NaN"
| "fmul (Fin a) PInf = (if a = 0 then NaN else if 0 < a then PInf else NInf)"
| "fmul (Fin a) NInf = (if a = 0 then NaN else if 0 < a then NInf else PInf)"
| "fmul PInf (Fin b) = (if b = 0 then NaN else if 0 < b then PInf else NInf)"
| "fmul NInf (Fin b) = (if b = 0 then NaN else if 0 < b then NInf else PInf)"
| "fmul PInf PInf = PInf"
| "fmul PInf NInf = NInf"
| "fmul NInf PInf = NInf"
| "fmul NInf NInf = PInf"

fun fdiv :: "fl \<Rightarrow> fl \<Rightarrow> fl" where
  "fdiv (Fin a) (Fin b) =
     (if b \<noteq> 0 then Fin (a / b) else if a = 0 then NaN else if 0 < a then PInf else NInf)"
| "fdiv NaN y = NaN"
| "fdiv x NaN = NaN"
| "fdiv (Fin a) PInf = Fin 0"
| "fdiv (Fin a) NInf = Fin 0"
| "fdiv PInf (Fin b) = (if 0 \<le> b then PInf else NInf)"
| "fdiv NInf (Fin b) = (if 0 \<le> b then NInf else PInf)"
| "fdiv PInf PInf = NaN"
| "fdiv PInf NInf = NaN"
| "fdiv NInf PInf = NaN"
| "fdiv NInf NInf = NaN"

fun fsqrt :: "fl \<Rightarrow> fl" where
  "fsqrt (Fin a) = (if a < 0 then NaN else Fin (sqrt a))"
| "fsqrt PInf = PInf"
| "fsqrt NInf = NaN"
| "fsqrt NaN = NaN"

fun fless :: "fl \<Rightarrow> fl \<Rightarrow> bool" where
  "fless (Fin a) (Fin b) = (a < b)"
| "fless NaN y = False"
| "fless x NaN = False"
| "fless x NInf = False"
| "fless NInf y = True"
| "fless PInf y = False"
| "fless x PInf = True"

definition fmax2 :: "fl \<Rightarrow> fl \<Rightarrow> fl" where
  "fmax2 x y = (if x = NaN \<or> y = NaN then NaN else if fless x y then y else x)"

definition fmin2 :: "fl \<Rightarrow> fl \<Rightarrow> fl" where
  "fmin2 x y = (if x = NaN \<or> y = NaN then NaN else if fless y x then y else x)"

text \<open>
  A torch tensor is its shape and its elements in row-major order. Strides are not
  modelled: every tensor is stored contiguously.
\<close>

record 'a tensor =
  shape :: "nat list"
  data :: "'a list"

definition numel :: "'a tensor \<Rightarrow> nat" where
  "numel t = prod_list (shape t)"

definition wf_tensor :: "'a tensor \<Rightarrow> bool" where
  "wf_tensor t \<longleftrightarrow> length (data t) = prod_list (shape t)"

fun ravel :: "nat list \<Rightarrow> nat list \<Rightarrow> nat" where
  "ravel (n # ns) (i # is) = i * prod_list ns + ravel ns is"
| "ravel ns is = 0"

fun unravel :: "nat list \<Rightarrow> nat \<Rightarrow> nat list" where
  "unravel [] k = []"
| "unravel (n # ns) k = (k div prod_list ns) # unravel ns (k mod prod_list ns)"

definition tget :: "'a tensor \<Rightarrow> nat list \<Rightarrow> 'a" where
  "tget t idx = data t ! ravel (shape t) idx"

definition tmap :: "('a \<Rightarrow> 'b) \<Rightarrow> 'a tensor \<Rightarrow> 'b tensor" where
  "tmap f t = \<lparr>shape = shape t, data = map f (data t)\<rparr>"

definition pad :: "nat \<Rightarrow> nat list \<Rightarrow> nat list" where
  "pad n s = replicate (n - length s) 1 @ s"

definition bdim :: "nat \<Rightarrow> nat \<Rightarrow> nat" where
  "bdim x y = (if x = 1 then y else x)"

definition clip :: "nat \<Rightarrow> nat \<Rightarrow> nat" where
  "clip n i = (if n = 1 then 0 else i)"

definition compatible :: "nat \<Rightarrow> nat \<Rightarrow> bool" where
  "compatible x y \<longleftrightarrow> x = y \<or> x = 1 \<or> y = 1"

definition broadcast_shapes :: "nat list \<Rightarrow> nat list \<Rightarrow> nat list option" where
  "broadcast_shapes a b =
     (let n = max (length a) (length b); a' = pad n a; b' = pad n b in
      if list_all2 compatible a' b' then Some (map2 bdim a' b')
      else None)"

definition expand :: "nat list \<Rightarrow> 'a tensor \<Rightarrow> 'a list" where
  "expand s t =
     (let ps = pad (length s) (shape t) in
      map (\<lambda>k. data t ! ravel ps (map2 clip ps (unravel s k)))
          [0..<prod_list s])"

definition binop :: "('a \<Rightarrow> 'b \<Rightarrow> 'c) \<Rightarrow> 'a tensor \<Rightarrow> 'b tensor \<Rightarrow> error + 'c tensor" where
  "binop f a b =
     (case broadcast_shapes (shape a) (shape b) of
        None \<Rightarrow> Inl RuntimeError
      | Some s \<Rightarrow> Inr \<lparr>shape = s, data = map2 f (expand s a) (expand s b)\<rparr>)"

definition position :: "nat \<Rightarrow> nat list \<Rightarrow> nat" where
  "position d dims = length (takeWhile (\<lambda>x. x \<noteq> d) dims)"

definition permute :: "nat list \<Rightarrow> 'a tensor \<Rightarrow> error + 'a tensor" where
  "permute dims t =
     (if length dims = length (shape t) \<and> distinct dims \<and> (\<forall>d \<in> set dims. d < length dims)
      then let s = map (\<lambda>d. shape t ! d) dims in
           Inr \<lparr>shape = s,
                data = map (\<lambda>k. data t ! ravel (shape t)
                                  (map (\<lambda>d. unravel s k ! position d dims) [0..<length dims]))
                           [0..<prod_list s]\<rparr>
      else Inl RuntimeError)"

definition unsqueeze0 :: "'a tensor \<Rightarrow> 'a tensor" where
  "unsqueeze0 t = \<lparr>shape = 1 # shape t, data = data t\<rparr>"

definition squeeze :: "'a tensor \<Rightarrow> 'a tensor" where
  "squeeze t = \<lparr>shape = filter (\<lambda>n. n \<noteq> 1) (shape t), data = data t\<rparr>"

fun fl_max :: "fl list \<Rightarrow> fl" where
  "fl_max [] = NaN"
| "fl_max (x # xs) = fold fmax2 xs x"

definition tmax :: "fl tensor \<Rightarrow> error + fl tensor" where
  \<comment> \<open>\<open>torch.max(t)\<close>: a 0-dimensional tensor; raises on an empty tensor\<close>
  "tmax t = (if data t = [] then Inl RuntimeError else Inr \<lparr>shape = [], data = [fl_max (data t)]\<rparr>)"

fun valid_index :: "nat list \<Rightarrow> nat list \<Rightarrow> bool" where
  "valid_index [] [] = True"
| "valid_index (n # ns) (i # is) = (i < n \<and> valid_index ns is)"
| "valid_index ns is = False"

definition zeros_like :: "'a tensor \<Rightarrow> fl tensor" where
  "zeros_like t = \<lparr>shape = shape t, data = replicate (length (data t)) (Fin 0)\<rparr>"

definition transpose_dims :: "nat \<Rightarrow> nat \<Rightarrow> 'a tensor \<Rightarrow> error + 'a tensor" where
  \<comment> \<open>\<open>t.transpose(d0, d1)\<close>\<close>
  "transpose_dims d0 d1 t =
     (let n = length (shape t) in
      if d0 < n \<and> d1 < n then permute (([0..<n][d0 := d1])[d1 := d0]) t else Inl IndexError)"

definition view_m1 :: "nat list \<Rightarrow> 'a tensor \<Rightarrow> error + 'a tensor" where
  \<comment> \<open>\<open>t.view(-1, *rest)\<close>: the leading dimension is inferred. As strides are not modelled
      this is a reshape; torch raises in addition when the strides of a non-contiguous
      tensor do not fit the new shape.\<close>
  "view_m1 rest t =
     (let m = prod_list rest in
      if m = 0 \<or> numel t mod m \<noteq> 0 then Inl RuntimeError
      else Inr \<lparr>shape = (numel t div m) # rest, data = data t\<rparr>)"

definition repeat_n_1 :: "nat \<Rightarrow> 'a tensor \<Rightarrow> error + 'a tensor" where
  \<comment> \<open>\<open>t.repeat(n, 1)\<close>\<close>
  "repeat_n_1 n t =
     (case shape t of
        [] \<Rightarrow> Inr \<lparr>shape = [n, 1], data = concat (replicate n (data t))\<rparr>
      | [c] \<Rightarrow> Inr \<lparr>shape = [n, c], data = concat (replicate n (data t))\<rparr>
      | [r, c] \<Rightarrow> Inr \<lparr>shape = [n * r, c], data = concat (replicate n (data t))\<rparr>
      | _ \<Rightarrow> Inl RuntimeError)"

definition norm_dim1 :: "fl tensor \<Rightarrow> error + fl tensor" where
  \<comment> \<open>\<open>t.norm(dim=1, keepdim=True)\<close>: the Euclidean norm along dimension 1\<close>
  "norm_dim1 t =
     (case shape t of
        a # b # rest \<Rightarrow>
          let s = a # 1 # rest in
          Inr \<lparr>shape = s,
               data = map (\<lambda>k. fsqrt (foldl fadd (Fin 0)
                                  (map (\<lambda>j. let x = data t ! ravel (shape t) ((unravel s k)[1 := j])
                                            in fmul x x) [0..<b])))
                          [0..<prod_list s]\<rparr>
      | _ \<Rightarrow> Inl IndexError)"

definition clamp :: "fl \<Rightarrow> fl \<Rightarrow> fl \<Rightarrow> fl" where
  \<comment> \<open>\<open>torch.clamp(x, lo, hi)\<close> on one element\<close>
  "clamp x lo hi = fmin2 (fmax2 x lo) hi"

definition clamp_min :: "fl \<Rightarrow> fl \<Rightarrow> fl" where
  "clamp_min x lo = fmax2 x lo"


section \<open>Camera conversion\<close>

text \<open>
  Camera matrices are lists of rows over the reals. \<open>linalg_inv\<close> is
  \<open>np.linalg.inv\<close> in exact arithmetic, by the adjugate formula: it raises
  \<open>LinAlgError\<close> when its argument is not square or is singular, and returns the
  exact inverse otherwise. numpy decides in floating point when to raise; statements
  about the failure of the conversion therefore take the inversion routine as a
  parameter (\<open>ns2gs_camera_inv\<close> below).
\<close>

type_synonym matrix = "real list list"

definition is_matrix :: "nat \<Rightarrow> nat \<Rightarrow> matrix \<Rightarrow> bool" where
  "is_matrix r c m \<longleftrightarrow> length m = r \<and> (\<forall>row \<in> set m. length row = c)"

definition identity :: "nat \<Rightarrow> matrix" where
  "identity n = map (\<lambda>i. map (\<lambda>j. if i = j then 1 else 0) [0..<n]) [0..<n]"

definition del_at :: "nat \<Rightarrow> 'a list \<Rightarrow> 'a list" where
  "del_at k xs = take k xs @ drop (Suc k) xs"

fun det :: "matrix \<Rightarrow> real" where
  "det [] = 1"
| "det (r # rs) = (\<Sum>j\<leftarrow>[0..<Suc (length rs)]. (- 1) ^ j * (r ! j) * det (map (del_at j) rs))"

definition minor_mat :: "matrix \<Rightarrow> nat \<Rightarrow> nat \<Rightarrow> matrix" where
  "minor_mat m i j = map (del_at j) (del_at i m)"

definition linalg_inv :: "matrix \<Rightarrow> error + matrix" where
  \<comment> \<open>\<open>np.linalg.inv\<close>\<close>
  "linalg_inv m =
     (let n = length m in
      if \<not> (\<forall>r \<in> set m. length r = n) then Inl LinAlgError
      else if det m = 0 then Inl LinAlgError
      else Inr (map (\<lambda>i. map (\<lambda>j. (- 1) ^ (i + j) * det (minor_mat m j i) / det m) [0..<n]) [0..<n]))"

definition matmul :: "matrix \<Rightarrow> matrix \<Rightarrow> error + matrix" where
  \<comment> \<open>\<open>torch.matmul\<close> on two matrices\<close>
  "matmul a b =
     (if \<forall>r \<in> set a. length r = length b
      then Inr (map (\<lambda>r. map (\<lambda>c. sum_list (map2 (*) r c)) (transpose b)) a)
      else Inl RuntimeError)"

definition concatenate :: "matrix \<Rightarrow> matrix \<Rightarrow> error + matrix" where
  \<comment> \<open>\<open>torch.concatenate([a, b], dim=0)\<close>\<close>
  "concatenate a b =
     (if \<forall>r \<in> set a. \<forall>s \<in> set b. length r = length s then Inr (a @ b) else Inl RuntimeError)"

definition imul_rows3_cols13 :: "real \<Rightarrow> matrix \<Rightarrow> matrix" where
  \<comment> \<open>the in-place update \<open>m[:3, 1:3] *= k\<close>\<close>
  "imul_rows3_cols13 k m =
     map (\<lambda>r. take 1 r @ map (\<lambda>x. x * k) (take 2 (drop 1 r)) @ drop 3 r) (take 3 m) @ drop 3 m"

text \<open>
  The helpers \<open>focal2fov\<close> and \<open>fov2focal\<close> are imported from
  \<open>nerfstudio.utils.gaussian_splatting_graphics_utils\<close> and the class \<open>Camera\<close> from
  \<open>nerfstudio.cameras.gaussian_splatting_camera\<close>; neither module is part of the
  available source.
\<close>

definition focal2fov :: "real \<Rightarrow> real \<Rightarrow> real" where
  \<comment> \<open>Modelled from the spec: \<open>focal2fov\<close> of gaussian_splatting_graphics_utils,
      \<open>fov = 2 * atan(dimension / (2 * focal_length))\<close>; arguments (focal, pixels).\<close>
  "focal2fov focal pixels = 2 * arctan (pixels / (2 * focal))"

definition fov2focal :: "real \<Rightarrow> real \<Rightarrow> real" where
  \<comment> \<open>Modelled from the spec: \<open>fov2focal\<close> of gaussian_splatting_graphics_utils,
      \<open>focal = dimension / (2 * tan(fov / 2))\<close>; arguments (fov, pixels).\<close>
  "fov2focal fov pixels = pixels / (2 * tan (fov / 2))"

record ns_camera =
  camera_to_worlds :: matrix
  fx :: real
  fy :: real
  width :: int
  height :: int

text \<open>
  Modelled from the spec: the class \<open>Camera\<close> (imported as \<open>GaussianSplattingCamera\<close>),
  as the record of its constructor arguments \<open>R\<close>, \<open>T\<close>, \<open>width\<close>, \<open>height\<close>, \<open>FoVx\<close>,
  \<open>FoVy\<close>; \<open>render\<close> reads the two sizes back as \<open>image_width\<close> and \<open>image_height\<close>.
  The attributes the class derives from them (\<open>world_view_transform\<close>,
  \<open>full_proj_transform\<close>, \<open>camera_center\<close>) are parameters, see \<open>externals\<close> below.
\<close>

record GaussianSplattingCamera =
  R :: matrix
  T :: "real list"
  image_width :: int
  image_height :: int
  FoVx :: real
  FoVy :: real

definition ns2gs_camera :: "matrix option \<Rightarrow> ns_camera \<Rightarrow> error + GaussianSplattingCamera" where
  "ns2gs_camera orientation_transform ns_cam =
     bind_err (concatenate (camera_to_worlds ns_cam) [[0, 0, 0, 1]]) (\<lambda>c2w.
     bind_err (case orientation_transform of None \<Rightarrow> Inr c2w | Some t \<Rightarrow> matmul t c2w) (\<lambda>c2w.
     let c2w = imul_rows3_cols13 (- 1) c2w in
     bind_err (linalg_inv c2w) (\<lambda>w2c.
     if \<exists>r \<in> set (take 3 w2c). length r \<le> 3 then Inl IndexError
     else Inr \<lparr>R = transpose (map (take 3) (take 3 w2c)),
               T = map (\<lambda>r. r ! 3) (take 3 w2c),
               image_width = width ns_cam,
               image_height = height ns_cam,
               FoVx = focal2fov (fx ns_cam) (real_of_int (width ns_cam)),
               FoVy = focal2fov (fy ns_cam) (real_of_int (height ns_cam))\<rparr>)))"

text \<open>
  The same conversion as the specification words it, entry by entry: append the row
  \<open>[0, 0, 0, 1]\<close>, left-multiply the orientation correction if there is one, negate
  columns 1 and 2 of the first three rows, invert, and read the rotation (transposed)
  and the translation column off the inverse.
\<close>

definition spec_homogenize :: "matrix \<Rightarrow> matrix" where
  "spec_homogenize m = m @ [[0, 0, 0, 1]]"

definition spec_left_multiply :: "matrix option \<Rightarrow> matrix \<Rightarrow> matrix" where
  "spec_left_multiply ot m =
     (case ot of
        None \<Rightarrow> m
      | Some t \<Rightarrow> map (\<lambda>i. map (\<lambda>j. \<Sum>k\<leftarrow>[0..<4]. t ! i ! k * m ! k ! j) [0..<4]) [0..<4])"

definition spec_negate_columns :: "matrix \<Rightarrow> matrix" where
  "spec_negate_columns m =
     map (\<lambda>i. map (\<lambda>j. if i < 3 \<and> (j = 1 \<or> j = 2) then - (m ! i ! j) else m ! i ! j) [0..<4]) [0..<4]"

definition spec_corrected_c2w :: "matrix option \<Rightarrow> matrix \<Rightarrow> matrix" where
  "spec_corrected_c2w ot c2w = spec_negate_columns (spec_left_multiply ot (spec_homogenize c2w))"

definition spec_R :: "matrix \<Rightarrow> matrix" where
  "spec_R w = map (\<lambda>i. map (\<lambda>j. w ! j ! i) [0..<3]) [0..<3]"

definition spec_T :: "matrix \<Rightarrow> real list" where
  "spec_T w = map (\<lambda>i. w ! i ! 3) [0..<3]"

definition spec_camera :: "matrix option \<Rightarrow> ns_camera \<Rightarrow> error + GaussianSplattingCamera" where
  "spec_camera ot ns_cam =
     (case linalg_inv (spec_corrected_c2w ot (camera_to_worlds ns_cam)) of
        Inl e \<Rightarrow> Inl e
      | Inr w2c \<Rightarrow>
          Inr \<lparr>R = spec_R w2c, T = spec_T w2c,
               image_width = width ns_cam, image_height = height ns_cam,
               FoVx = 2 * arctan (real_of_int (width ns_cam) / (2 * fx ns_cam)),
               FoVy = 2 * arctan (real_of_int (height ns_cam) / (2 * fy ns_cam))\<rparr>)"

text \<open>
  \<open>np.linalg.inv\<close> runs an LU factorisation in floating point and raises \<open>LinAlgError\<close>
  when a pivot is exactly zero; because of rounding this is not the same as the matrix
  being singular, and exact arithmetic does not decide it. For statements about the
  failure of the conversion, \<open>ns2gs_camera_inv\<close> is the same function with the inversion
  routine as a parameter: on a matrix it either returns a matrix or raises \<open>LinAlgError\<close>
  (the value \<open>None\<close>). \<open>exact_inv\<close> is the exact inverse above as such a routine.
\<close>

definition ns2gs_camera_inv ::
  "(matrix \<Rightarrow> matrix option) \<Rightarrow> matrix option \<Rightarrow> ns_camera \<Rightarrow> error + GaussianSplattingCamera" where
  "ns2gs_camera_inv np_inv orientation_transform ns_cam =
     bind_err (concatenate (camera_to_worlds ns_cam) [[0, 0, 0, 1]]) (\<lambda>c2w.
     bind_err (case orientation_transform of None \<Rightarrow> Inr c2w | Some t \<Rightarrow> matmul t c2w) (\<lambda>c2w.
     let c2w = imul_rows3_cols13 (- 1) c2w in
     bind_err (case np_inv c2w of None \<Rightarrow> Inl LinAlgError | Some w \<Rightarrow> Inr w) (\<lambda>w2c.
     if \<exists>r \<in> set (take 3 w2c). length r \<le> 3 then Inl IndexError
     else Inr \<lparr>R = transpose (map (take 3) (take 3 w2c)),
               T = map (\<lambda>r. r ! 3) (take 3 w2c),
               image_width = width ns_cam,
               image_height = height ns_cam,
               FoVx = focal2fov (fx ns_cam) (real_of_int (width ns_cam)),
               FoVy = focal2fov (fy ns_cam) (real_of_int (height ns_cam))\<rparr>)))"

definition exact_inv :: "matrix \<Rightarrow> matrix option" where
  "exact_inv m = (case linalg_inv m of Inl e \<Rightarrow> None | Inr w \<Rightarrow> Some w)"

section \<open>The model: construction, rendering and post-processing\<close>

record GaussianSplattingModelConfig =
  background_color :: string
  sh_degree :: int

record PipelineParams =
  convert_SHs_python :: bool
  compute_cov3D_python :: bool
  debug :: bool

definition PipelineParams_init :: PipelineParams where
  "PipelineParams_init = \<lparr>convert_SHs_python = False, compute_cov3D_python = False, debug = False\<rparr>"

text \<open>
  Modelled from the spec: the class \<open>GaussianSplattingField\<close> of
  \<open>nerfstudio.fields.gaussian_splatting_field\<close>, as the record of the attributes that
  \<open>render\<close> reads from the Gaussian asset.
\<close>

record GaussianSplattingField =
  get_xyz :: "fl tensor"
  get_opacity :: "fl tensor"
  get_scaling :: "fl tensor"
  get_rotation :: "fl tensor"
  get_features :: "fl tensor"
  get_covariance :: "real \<Rightarrow> fl tensor"
  active_sh_degree :: nat
  max_sh_degree :: nat

record GaussianRasterizationSettings =
  image_height_rs :: int
  image_width_rs :: int
  tanfovx :: real
  tanfovy :: real
  bg :: "fl tensor"
  scale_modifier :: real
  viewmatrix :: "fl tensor"
  projmatrix :: "fl tensor"
  sh_degree_rs :: nat
  campos :: "fl tensor"
  prefiltered :: bool
  debug_rs :: bool

record rasterizer_inputs =
  means3D :: "fl tensor"
  means2D :: "fl tensor"
  shs :: "fl tensor option"
  colors_precomp :: "fl tensor option"
  opacities :: "fl tensor"
  scales :: "fl tensor option"
  rotations :: "fl tensor option"
  cov3D_precomp :: "fl tensor option"

text \<open>
  Everything the file calls but does not define is a parameter: the rasterization
  kernel, the spherical-harmonics evaluation \<open>eval_sh\<close>, the attributes the camera
  class derives, \<open>torch.load\<close> followed by \<open>load_state_dict\<close>, and the forward
  passes of the two compositing networks for given weights \<open>'w\<close>.
\<close>

record 'w externals =
  rasterizer :: "GaussianRasterizationSettings \<Rightarrow> rasterizer_inputs \<Rightarrow> fl tensor \<times> int tensor \<times> fl tensor"
  eval_sh :: "nat \<Rightarrow> fl tensor \<Rightarrow> fl tensor \<Rightarrow> fl tensor"
  world_view_transform :: "GaussianSplattingCamera \<Rightarrow> fl tensor"
  full_proj_transform :: "GaussianSplattingCamera \<Rightarrow> fl tensor"
  camera_center :: "GaussianSplattingCamera \<Rightarrow> fl tensor"
  torch_load :: "string option \<Rightarrow> error + 'w"
  AttenuateNet :: "'w \<Rightarrow> fl tensor \<Rightarrow> fl tensor \<Rightarrow> fl tensor \<times> fl tensor"
  BackscatterNet :: "'w \<Rightarrow> fl tensor \<Rightarrow> fl tensor"

text \<open>
  The dictionary returned by \<open>render\<close> has a fixed key set and values of three element
  types, so it is a record; the key \<open>"render"\<close> is the field \<open>rendered_image\<close>.
\<close>

record render_results =
  rendered_image :: "fl tensor"
  rendered_depth :: "fl tensor"
  viewspace_points :: "fl tensor"
  visibility_filter :: "bool tensor"
  radii :: "int tensor"

text \<open>
  \<open>render\<close> in three parts: the rasterization settings (source lines 194 to 211), the
  choice of the colour source (lines 232 to 244), and the call of the rasterizer with the
  assembled inputs (lines 215 to 263).
\<close>

definition render_settings ::
  "'w externals \<Rightarrow> GaussianSplattingCamera \<Rightarrow> GaussianSplattingField \<Rightarrow> PipelineParams \<Rightarrow>
   fl tensor \<Rightarrow> real \<Rightarrow> GaussianRasterizationSettings" where
  "render_settings env viewpoint_camera pc pipe bg_color scaling_modifier =
     \<lparr>image_height_rs = image_height viewpoint_camera,
      image_width_rs = image_width viewpoint_camera,
      tanfovx = tan (FoVx viewpoint_camera * 0.5),
      tanfovy = tan (FoVy viewpoint_camera * 0.5),
      bg = bg_color,
      scale_modifier = scaling_modifier,
      viewmatrix = world_view_transform env viewpoint_camera,
      projmatrix = full_proj_transform env viewpoint_camera,
      sh_degree_rs = active_sh_degree pc,
      campos = camera_center env viewpoint_camera,
      prefiltered = False,
      debug_rs = debug pipe\<rparr>"

definition color_source ::
  "'w externals \<Rightarrow> GaussianSplattingCamera \<Rightarrow> GaussianSplattingField \<Rightarrow> PipelineParams \<Rightarrow>
   fl tensor option \<Rightarrow> error + (fl tensor option \<times> fl tensor option)" where
  \<comment> \<open>the pair \<open>(shs, colors_precomp)\<close>\<close>
  "color_source env viewpoint_camera pc pipe override_color =
     (case override_color of
        None \<Rightarrow>
          if convert_SHs_python pipe then
            bind_err (transpose_dims 1 2 (get_features pc)) (\<lambda>features_t.
            bind_err (view_m1 [3, (max_sh_degree pc + 1) ^ 2] features_t) (\<lambda>shs_view.
            bind_err (case shape (get_features pc) of
                        [] \<Rightarrow> Inl IndexError
                      | n # _ \<Rightarrow> repeat_n_1 n (camera_center env viewpoint_camera)) (\<lambda>center.
            bind_err (binop fsub (get_xyz pc) center) (\<lambda>dir_pp.
            bind_err (norm_dim1 dir_pp) (\<lambda>dir_norm.
            bind_err (binop fdiv dir_pp dir_norm) (\<lambda>dir_pp_normalized.
            let sh2rgb = eval_sh env (active_sh_degree pc) shs_view dir_pp_normalized in
            Inr (None, Some (tmap (\<lambda>x. clamp_min x (Fin 0.0))
                                  (tmap (\<lambda>x. fadd x (Fin 0.5)) sh2rgb)))))))))
          else Inr (Some (get_features pc), None)
      | Some c \<Rightarrow> Inr (None, Some c))"

definition render_inputs ::
  "GaussianSplattingField \<Rightarrow> PipelineParams \<Rightarrow> real \<Rightarrow> fl tensor option \<times> fl tensor option \<Rightarrow>
   rasterizer_inputs" where
  "render_inputs pc pipe scaling_modifier colors =
     \<lparr>means3D = get_xyz pc,
      means2D = tmap (\<lambda>x. fadd x (Fin 0)) (zeros_like (get_xyz pc)),
      shs = fst colors,
      colors_precomp = snd colors,
      opacities = get_opacity pc,
      scales = (if compute_cov3D_python pipe then None else Some (get_scaling pc)),
      rotations = (if compute_cov3D_python pipe then None else Some (get_rotation pc)),
      cov3D_precomp =
        (if compute_cov3D_python pipe then Some (get_covariance pc scaling_modifier) else None)\<rparr>"

definition render ::
  "'w externals \<Rightarrow> GaussianSplattingCamera \<Rightarrow> GaussianSplattingField \<Rightarrow> PipelineParams \<Rightarrow>
   fl tensor \<Rightarrow> real \<Rightarrow> fl tensor option \<Rightarrow> error + render_results" where
  "render env viewpoint_camera pc pipe bg_color scaling_modifier override_color =
     bind_err (color_source env viewpoint_camera pc pipe override_color) (\<lambda>colors.
     let inputs = render_inputs pc pipe scaling_modifier colors;
         (image, rs, depth) =
            rasterizer env (render_settings env viewpoint_camera pc pipe bg_color scaling_modifier) inputs
     in Inr \<lparr>rendered_image = image,
              rendered_depth = depth,
              viewspace_points = means2D inputs,
              visibility_filter = tmap (\<lambda>r. 0 < r) rs,
              radii = rs\<rparr>)"

text \<open>
  The object: the attributes \<open>__init__\<close> sets. \<open>scaling_modifier_slider\<close> is the current
  value of the viewer slider. The Gaussian asset is loaded by \<open>populate_modules\<close> (called
  from the base class constructor, reading files); it is given to the constructor here.
  A path argument is a Python string or \<open>None\<close>, the default.
\<close>

record 'w GaussianSplatting =
  config :: GaussianSplattingModelConfig
  model_path :: "string option"
  load_iteration :: int
  orientation_transform :: "matrix option"
  pipeline_params :: PipelineParams
  bg_color :: "real list"
  scaling_modifier_slider :: real
  do_seathru :: bool
  at_model :: "'w option"
  bs_model :: "'w option"
  gaussian_model :: GaussianSplattingField

definition GaussianSplatting_init ::
  "'w externals \<Rightarrow> GaussianSplattingModelConfig \<Rightarrow> GaussianSplattingField \<Rightarrow> string option \<Rightarrow> int \<Rightarrow>
   matrix option \<Rightarrow> string option \<Rightarrow> string option \<Rightarrow> error + 'w GaussianSplatting" where
  "GaussianSplatting_init env cfg pc model_path_arg load_iteration_arg orientation_transform_arg
       backscatter_model_path attenuation_model_path =
     (let self = \<lparr>config = cfg,
                  model_path = model_path_arg,
                  load_iteration = load_iteration_arg,
                  orientation_transform = orientation_transform_arg,
                  pipeline_params = PipelineParams_init,
                  bg_color = (if background_color cfg = ''black'' then [0, 0, 0] else [1, 1, 1]),
                  scaling_modifier_slider = 1.0,
                  do_seathru = (attenuation_model_path \<noteq> Some ''None''
                                \<and> backscatter_model_path \<noteq> Some ''None''),
                  at_model = None,
                  bs_model = None,
                  gaussian_model = pc\<rparr>
      in if do_seathru self then
           bind_err (torch_load env attenuation_model_path) (\<lambda>at_weights.
           bind_err (torch_load env backscatter_model_path) (\<lambda>bs_weights.
           Inr (self\<lparr>at_model := Some at_weights, bs_model := Some bs_weights\<rparr>)))
         else Inr self)"

record RayBundle =
  camera :: ns_camera

definition get_outputs_for_camera_ray_bundle ::
  "'w externals \<Rightarrow> 'w GaussianSplatting \<Rightarrow> RayBundle \<Rightarrow> error + (string \<rightharpoonup> fl tensor)" where
  "get_outputs_for_camera_ray_bundle env self camera_ray_bundle =
     bind_err (ns2gs_camera (orientation_transform self) (camera camera_ray_bundle)) (\<lambda>viewpoint_camera.
     let background = \<lparr>shape = [length (bg_color self)], data = map Fin (bg_color self)\<rparr> in
     bind_err (render env viewpoint_camera (gaussian_model self) (pipeline_params self) background
                 (scaling_modifier_slider self) None) (\<lambda>results.
     let image = rendered_image results; depth_image = rendered_depth results in
     bind_err (tmax depth_image) (\<lambda>max_depth.
     bind_err (permute [1, 2, 0] (tmap (\<lambda>x. clamp x (Fin 0.0) (Fin 1.0)) image)) (\<lambda>rgb.
     bind_err (binop fdiv depth_image max_depth) (\<lambda>normalized.
     bind_err (permute [1, 2, 0] normalized) (\<lambda>depth.
     if do_seathru self then
       (case (at_model self, bs_model self) of
          (Some at_net, Some bs_net) \<Rightarrow>
            let depth_batch = unsqueeze0 depth_image;
                rgb_batch = unsqueeze0 image;
                (direct, attenuation_map) = AttenuateNet env at_net rgb_batch depth_batch;
                backscatter = BackscatterNet env bs_net depth_batch
            in
            bind_err (binop fadd direct backscatter) (\<lambda>composite.
            let underwater_image = tmap (\<lambda>x. clamp x (Fin 0.0) (Fin 1.0)) composite in
            bind_err (permute [1, 2, 0] depth_image) (\<lambda>out_depth.
            bind_err (permute [1, 2, 0] (squeeze backscatter)) (\<lambda>out_backscatter.
            bind_err (permute [1, 2, 0] (squeeze attenuation_map)) (\<lambda>out_attenuation.
            bind_err (permute [1, 2, 0] (squeeze direct)) (\<lambda>out_direct.
            bind_err (permute [1, 2, 0] (squeeze underwater_image)) (\<lambda>out_underwater.
            Inr [''rgb'' \<mapsto> rgb,
                 ''depth'' \<mapsto> out_depth,
                 ''backscatter'' \<mapsto> out_backscatter,
                 ''attenuation'' \<mapsto> out_attenuation,
                 ''direct'' \<mapsto> out_direct,
                 ''underwater_image'' \<mapsto> out_underwater]))))))
        | _ \<Rightarrow> Inl AttributeError)
     else Inr [''rgb'' \<mapsto> rgb, ''depth'' \<mapsto> depth]))))))"


section \<open>Example inputs\<close>

definition ex_cam :: ns_camera where
  "ex_cam = \<lparr>camera_to_worlds = [[1, 0, 0, 1], [0, 1, 0, 2], [0, 0, 1, 3]],
              fx = 3, fy = 5, width = 4, height = 2\<rparr>"

definition ex_orientation :: matrix where
  "ex_orientation = [[0, 0, 1, 0], [1, 0, 0, 0], [0, 1, 0, 0], [0, 0, 0, 1]]"



text \<open>
  An environment for the examples: a rasterizer that returns a fixed 3 by 2 by 2 image,
  the radii \<open>[3, 0, 5]\<close> and a depth image with maximum 10 and one pixel of depth 5;
  a loader that fails on \<open>None\<close>; networks that return the colour batch itself as the
  direct signal, a constant attenuation map and a constant backscatter.
\<close>

definition ex_image :: "fl tensor" where
  "ex_image = \<lparr>shape = [3, 2, 2],
               data = map Fin [0.2, 0.4, 1.5, - 0.1, 0.3, 0.9, 0.8, 0.0, 0.6, 0.7, 0.95, 0.5]\<rparr>"

definition ex_depth :: "fl tensor" where
  "ex_depth = \<lparr>shape = [1, 2, 2], data = [Fin 5, Fin 10, Fin 10, Fin 10]\<rparr>"

definition ex_radii :: "int tensor" where
  "ex_radii = \<lparr>shape = [3], data = [3, 0, 5]\<rparr>"

definition ex_env :: "nat externals" where
  "ex_env = \<lparr>rasterizer = (\<lambda>settings inputs. (ex_image, ex_radii, ex_depth)),
             eval_sh = (\<lambda>deg sh dirs. dirs),
             world_view_transform = (\<lambda>c. \<lparr>shape = [4, 4], data = replicate 16 (Fin 0)\<rparr>),
             full_proj_transform = (\<lambda>c. \<lparr>shape = [4, 4], data = replicate 16 (Fin 0)\<rparr>),
             camera_center = (\<lambda>c. \<lparr>shape = [3], data = [Fin 0, Fin 0, Fin 1]\<rparr>),
             torch_load = (\<lambda>p. case p of None \<Rightarrow> Inl AttributeError | Some s \<Rightarrow> Inr (length s)),
             AttenuateNet = (\<lambda>w rgb d. (rgb, \<lparr>shape = [1, 3, 2, 2], data = replicate 12 (Fin 0.5)\<rparr>)),
             BackscatterNet = (\<lambda>w d. \<lparr>shape = [1, 3, 2, 2], data = replicate 12 (Fin 0.25)\<rparr>)\<rparr>"

definition ex_pc :: GaussianSplattingField where
  "ex_pc = \<lparr>get_xyz = \<lparr>shape = [3, 3], data = map Fin [3, 0, 5, 0, 0, 1, 1, 2, 3]\<rparr>,
            get_opacity = \<lparr>shape = [3, 1], data = map Fin [1, 1, 1]\<rparr>,
            get_scaling = \<lparr>shape = [3, 3], data = replicate 9 (Fin 1)\<rparr>,
            get_rotation = \<lparr>shape = [3, 4], data = replicate 12 (Fin 0)\<rparr>,
            get_features = \<lparr>shape = [3, 1, 3], data = map Fin [1, 2, 3, 4, 5, 6, 7, 8, 9]\<rparr>,
            get_covariance = (\<lambda>m. \<lparr>shape = [3, 6], data = replicate 18 (Fin m)\<rparr>),
            active_sh_degree = 0,
            max_sh_degree = 0\<rparr>"

definition ex_config :: GaussianSplattingModelConfig where
  "ex_config = \<lparr>background_color = ''black'', sh_degree = 0\<rparr>"

definition ex_plain :: "nat GaussianSplatting" where
  "ex_plain = \<lparr>config = ex_config, model_path = Some ''out'', load_iteration = - 1,
               orientation_transform = None, pipeline_params = PipelineParams_init,
               bg_color = [0, 0, 0], scaling_modifier_slider = 1, do_seathru = False,
               at_model = None, bs_model = None, gaussian_model = ex_pc\<rparr>"

definition ex_seathru :: "nat GaussianSplatting" where
  "ex_seathru = \<lparr>config = ex_config, model_path = Some ''out'', load_iteration = - 1,
               orientation_transform = None, pipeline_params = PipelineParams_init,
               bg_color = [0, 0, 0], scaling_modifier_slider = 1, do_seathru = True,
               at_model = Some 6, bs_model = Some 6, gaussian_model = ex_pc\<rparr>"

definition ex_bundle :: RayBundle where
  "ex_bundle = \<lparr>camera = ex_cam\<rparr>"

definition ex_viewpoint :: GaussianSplattingCamera where
  "ex_viewpoint = \<lparr>R = [[1, 0, 0], [0, - 1, 0], [0, 0, - 1]], T = [- 1, 2, 3],
                   image_width = 4, image_height = 2,
                   FoVx = 2 * arctan (4 / (2 * 3)), FoVy = 2 * arctan (2 / (2 * 5))\<rparr>"

definition ex_results :: render_results where
  "ex_results = \<lparr>rendered_image = ex_image, rendered_depth = ex_depth,
                 viewspace_points = \<lparr>shape = [3, 3], data = replicate 9 (Fin 0)\<rparr>,
                 visibility_filter = \<lparr>shape = [3], data = [True, False, True]\<rparr>,
                 radii = ex_radii\<rparr>"

definition output_at :: "error + (string \<rightharpoonup> 'a tensor) \<Rightarrow> string \<Rightarrow> nat list \<Rightarrow> 'a option" where
  \<comment> \<open>the element at an index of the image stored under a key of a returned dictionary\<close>
  "output_at r key idx =
     (case r of Inl e \<Rightarrow> None | Inr out \<Rightarrow> map_option (\<lambda>t. tget t idx) (out key))"

definition output_keys :: "error + (string \<rightharpoonup> 'a) \<Rightarrow> string set" where
  \<comment> \<open>the key set of a returned dictionary\<close>
  "output_keys r = (case r of Inl e \<Rightarrow> {} | Inr out \<Rightarrow> dom out)"



section \<open>Auxiliary facts\<close>

lemma det3: "det [[b1,b2,b3],[c1,c2,c3],[d1,d2,d3]] =
   b1 * (c2 * d3 - c3 * d2) - b2 * (c1 * d3 - c3 * d1) + b3 * (c1 * d2 - c2 * d1)"
  by (simp add: del_at_def upt_conv_Cons algebra_simps)

lemma det4: "det [[a1,a2,a3,a4],[b1,b2,b3,b4],[c1,c2,c3,c4],[d1,d2,d3,d4]] =
   a1 * det [[b2,b3,b4],[c2,c3,c4],[d2,d3,d4]]
 - a2 * det [[b1,b3,b4],[c1,c3,c4],[d1,d3,d4]]
 + a3 * det [[b1,b2,b4],[c1,c2,c4],[d1,d2,d4]]
 - a4 * det [[b1,b2,b3],[c1,c2,c3],[d1,d2,d3]]"
  apply (subst det.simps(2))
  apply (simp add: del_at_def upt_conv_Cons del: det.simps)
  done

lemma upt4: "[0..<4] = [0, Suc 0, Suc (Suc 0), Suc (Suc (Suc 0))]"
  by (simp add: upt_conv_Cons numeral_eq_Suc)

declare det.simps [simp del]

lemma inv4_left:
  assumes "linalg_inv [[a1,a2,a3,a4],[b1,b2,b3,b4],[c1,c2,c3,c4],[d1,d2,d3,d4]] = Inr w"
  shows "matmul w [[a1,a2,a3,a4],[b1,b2,b3,b4],[c1,c2,c3,c4],[d1,d2,d3,d4]] = Inr (identity 4)"
proof -
  let ?M = "[[a1,a2,a3,a4],[b1,b2,b3,b4],[c1,c2,c3,c4],[d1,d2,d3,d4]]"
  have d: "det ?M \<noteq> 0" using assms by (simp add: linalg_inv_def Let_def split: if_splits)
  have w: "w = map (\<lambda>i. map (\<lambda>j. (- 1) ^ (i + j) * det (minor_mat ?M j i) / det ?M)
        [0, Suc 0, Suc (Suc 0), Suc (Suc (Suc 0))]) [0, Suc 0, Suc (Suc 0), Suc (Suc (Suc 0))]"
    using assms d by (simp add: linalg_inv_def Let_def upt4 split: if_splits)
  define D where "D = det ?M"
  have D: "D = a1 * (b2 * (c3 * d4 - c4 * d3) - b3 * (c2 * d4 - c4 * d2) + b4 * (c2 * d3 - c3 * d2))
 - a2 * (b1 * (c3 * d4 - c4 * d3) - b3 * (c1 * d4 - c4 * d1) + b4 * (c1 * d3 - c3 * d1))
 + a3 * (b1 * (c2 * d4 - c4 * d2) - b2 * (c1 * d4 - c4 * d1) + b4 * (c1 * d2 - c2 * d1))
 - a4 * (b1 * (c2 * d3 - c3 * d2) - b2 * (c1 * d3 - c3 * d1) + b3 * (c1 * d2 - c2 * d1))"
    unfolding D_def det4 det3 by simp
  have D0: "D \<noteq> 0" using d by (simp add: D_def)
  have div: "\<And>x y. x / D + y = (x + y * D) / D" "\<And>x y. x / D - y = (x - y * D) / D"
     "\<And>x y. y - x / D = (y * D - x) / D"  "\<And>x y. y + x / D = (y * D + x) / D"
    using D0 by (simp_all add: field_simps)
  have e1: "\<And>x. (x / D = 1) = (x = D)" and e0: "\<And>x. (x / D = 0) = (x = 0)"
    using D0 by (auto simp add: field_simps)
  show ?thesis
    unfolding w
    apply (simp add: minor_mat_def del_at_def det3 matmul_def identity_def upt4)
    apply (fold D_def)
    apply (simp only: add_divide_distrib [symmetric] diff_divide_distrib [symmetric] e1 e0)
    apply (simp only: D)
    apply (intro conjI)
    apply (simp_all add: algebra_simps)
    done
qed

lemma inv4_right:
  assumes "linalg_inv [[a1,a2,a3,a4],[b1,b2,b3,b4],[c1,c2,c3,c4],[d1,d2,d3,d4]] = Inr w"
  shows "matmul [[a1,a2,a3,a4],[b1,b2,b3,b4],[c1,c2,c3,c4],[d1,d2,d3,d4]] w = Inr (identity 4)"
proof -
  let ?M = "[[a1,a2,a3,a4],[b1,b2,b3,b4],[c1,c2,c3,c4],[d1,d2,d3,d4]]"
  have d: "det ?M \<noteq> 0" using assms by (simp add: linalg_inv_def Let_def split: if_splits)
  have w: "w = map (\<lambda>i. map (\<lambda>j. (- 1) ^ (i + j) * det (minor_mat ?M j i) / det ?M)
        [0, Suc 0, Suc (Suc 0), Suc (Suc (Suc 0))]) [0, Suc 0, Suc (Suc 0), Suc (Suc (Suc 0))]"
    using assms d by (simp add: linalg_inv_def Let_def upt4 split: if_splits)
  define D where "D = det ?M"
  have D: "D = a1 * (b2 * (c3 * d4 - c4 * d3) - b3 * (c2 * d4 - c4 * d2) + b4 * (c2 * d3 - c3 * d2))
 - a2 * (b1 * (c3 * d4 - c4 * d3) - b3 * (c1 * d4 - c4 * d1) + b4 * (c1 * d3 - c3 * d1))
 + a3 * (b1 * (c2 * d4 - c4 * d2) - b2 * (c1 * d4 - c4 * d1) + b4 * (c1 * d2 - c2 * d1))
 - a4 * (b1 * (c2 * d3 - c3 * d2) - b2 * (c1 * d3 - c3 * d1) + b3 * (c1 * d2 - c2 * d1))"
    unfolding D_def det4 det3 by simp
  have D0: "D \<noteq> 0" using d by (simp add: D_def)
  have e1: "\<And>x. (x / D = 1) = (x = D)" and e0: "\<And>x. (x / D = 0) = (x = 0)"
    using D0 by (auto simp add: field_simps)
  show ?thesis
    unfolding w
    apply (simp add: minor_mat_def del_at_def det3 matmul_def identity_def upt4)
    apply (fold D_def)
    apply (simp only: times_divide_eq_right times_divide_eq_left mult_minus_right mult_minus_left
        minus_divide_left add_divide_distrib [symmetric] diff_divide_distrib [symmetric] e1 e0)
    apply (simp only: D)
    apply (intro conjI)
    apply (simp_all add: algebra_simps)
    done
qed

lemma list4: "length xs = 4 \<Longrightarrow> \<exists>a b c d. xs = [a, b, c, d]"
  by (auto simp: numeral_eq_Suc length_Suc_conv)

lemma list3: "length xs = 3 \<Longrightarrow> \<exists>a b c. xs = [a, b, c]"
  by (auto simp: numeral_eq_Suc length_Suc_conv)

lemma matrix44:
  assumes "is_matrix 4 4 m"
  shows "\<exists>a1 a2 a3 a4 b1 b2 b3 b4 c1 c2 c3 c4 d1 d2 d3 d4.
           m = [[a1,a2,a3,a4],[b1,b2,b3,b4],[c1,c2,c3,c4],[d1,d2,d3,d4]]"
proof -
  from assms obtain r1 r2 r3 r4 where m: "m = [r1, r2, r3, r4]"
    using list4 [of m] by (auto simp: is_matrix_def)
  with assms have "length r1 = 4" "length r2 = 4" "length r3 = 4" "length r4 = 4"
    by (simp_all add: is_matrix_def)
  then show ?thesis
    using list4 [of r1] list4 [of r2] list4 [of r3] list4 [of r4] unfolding m by blast
qed

lemma matrix34:
  assumes "is_matrix 3 4 m"
  shows "\<exists>a1 a2 a3 a4 b1 b2 b3 b4 c1 c2 c3 c4.
           m = [[a1,a2,a3,a4],[b1,b2,b3,b4],[c1,c2,c3,c4]]"
proof -
  from assms obtain r1 r2 r3 where m: "m = [r1, r2, r3]"
    using list3 [of m] by (auto simp: is_matrix_def)
  with assms have "length r1 = 4" "length r2 = 4" "length r3 = 4"
    by (simp_all add: is_matrix_def)
  then show ?thesis
    using list4 [of r1] list4 [of r2] list4 [of r3] unfolding m by blast
qed

lemma linalg_inv_shape:
  assumes "linalg_inv m = Inr w"
  shows "is_matrix (length m) (length m) w \<and> is_matrix (length m) (length m) m \<and> det m \<noteq> 0"
  using assms by (auto simp: linalg_inv_def Let_def is_matrix_def split: if_splits)

lemma linalg_inv_inverse:
  assumes "is_matrix 4 4 m" and "linalg_inv m = Inr w"
  shows "matmul w m = Inr (identity 4) \<and> matmul m w = Inr (identity 4)"
proof -
  from matrix44 [OF assms(1)] obtain a1 a2 a3 a4 b1 b2 b3 b4 c1 c2 c3 c4 d1 d2 d3 d4
    where "m = [[a1,a2,a3,a4],[b1,b2,b3,b4],[c1,c2,c3,c4],[d1,d2,d3,d4]]" by blast
  with assms(2) show ?thesis
    by (simp add: inv4_left inv4_right)
qed

lemma upt3: "[0..<3] = [0, Suc 0, Suc (Suc 0)]"
  by (simp add: upt_conv_Cons numeral_eq_Suc)

lemma camera_steps:
  assumes "is_matrix 3 4 c2w" and "\<forall>t. ot = Some t \<longrightarrow> is_matrix 4 4 t"
  shows "concatenate c2w [[0, 0, 0, 1]] = Inr (spec_homogenize c2w)"
    and "(case ot of None \<Rightarrow> Inr (spec_homogenize c2w) | Some t \<Rightarrow> matmul t (spec_homogenize c2w))
           = Inr (spec_left_multiply ot (spec_homogenize c2w))"
    and "imul_rows3_cols13 (- 1) (spec_left_multiply ot (spec_homogenize c2w)) = spec_corrected_c2w ot c2w"
    and "is_matrix 4 4 (spec_corrected_c2w ot c2w)"
proof -
  from matrix34 [OF assms(1)] obtain a1 a2 a3 a4 b1 b2 b3 b4 c1 c2 c3 c4
    where c: "c2w = [[a1,a2,a3,a4],[b1,b2,b3,b4],[c1,c2,c3,c4]]" by blast
  show "concatenate c2w [[0, 0, 0, 1]] = Inr (spec_homogenize c2w)"
    by (simp add: c concatenate_def spec_homogenize_def)
  show "is_matrix 4 4 (spec_corrected_c2w ot c2w)"
    by (simp add: spec_corrected_c2w_def spec_negate_columns_def upt4 is_matrix_def)
  show "(case ot of None \<Rightarrow> Inr (spec_homogenize c2w) | Some t \<Rightarrow> matmul t (spec_homogenize c2w))
           = Inr (spec_left_multiply ot (spec_homogenize c2w))"
  proof (cases ot)
    case None
    then show ?thesis by (simp add: spec_left_multiply_def)
  next
    case (Some t)
    with assms(2) have "is_matrix 4 4 t" by simp
    from matrix44 [OF this] obtain t11 t12 t13 t14 t21 t22 t23 t24 t31 t32 t33 t34 t41 t42 t43 t44
      where t: "t = [[t11,t12,t13,t14],[t21,t22,t23,t24],[t31,t32,t33,t34],[t41,t42,t43,t44]]" by blast
    show ?thesis
      by (simp add: Some t c matmul_def spec_left_multiply_def spec_homogenize_def upt4)
  qed
  show "imul_rows3_cols13 (- 1) (spec_left_multiply ot (spec_homogenize c2w)) = spec_corrected_c2w ot c2w"
  proof (cases ot)
    case None
    then show ?thesis
      by (simp add: c imul_rows3_cols13_def spec_corrected_c2w_def spec_negate_columns_def
          spec_left_multiply_def spec_homogenize_def upt4)
  next
    case (Some t)
    then show ?thesis
      by (simp add: imul_rows3_cols13_def spec_corrected_c2w_def spec_negate_columns_def
          spec_left_multiply_def upt4)
  qed
qed

lemma ns2gs_camera_spec:
  assumes "is_matrix 3 4 (camera_to_worlds cam)" and "\<forall>t. ot = Some t \<longrightarrow> is_matrix 4 4 t"
  shows "ns2gs_camera ot cam = spec_camera ot cam"
proof -
  let ?M = "spec_corrected_c2w ot (camera_to_worlds cam)"
  note cs = camera_steps [OF assms]
  show ?thesis
  proof (cases "linalg_inv ?M")
    case (Inl e)
    then show ?thesis
      by (simp add: ns2gs_camera_def spec_camera_def bind_err_def cs)
  next
    case (Inr w)
    from linalg_inv_shape [OF Inr] cs(4) have "is_matrix 4 4 w" by (simp add: is_matrix_def)
    from matrix44 [OF this] obtain a1 a2 a3 a4 b1 b2 b3 b4 c1 c2 c3 c4 d1 d2 d3 d4
      where w: "w = [[a1,a2,a3,a4],[b1,b2,b3,b4],[c1,c2,c3,c4],[d1,d2,d3,d4]]" by blast
    have "transpose (map (take 3) (take 3 w)) = spec_R w" "map (\<lambda>r. r ! 3) (take 3 w) = spec_T w"
      "\<not> (\<exists>r \<in> set (take 3 w). length r \<le> 3)"
      by (simp_all add: w spec_R_def spec_T_def upt3 numeral_eq_Suc)
    with Inr show ?thesis
      by (simp add: ns2gs_camera_def spec_camera_def focal2fov_def bind_err_def cs)
  qed
qed

lemma ravel_less: "valid_index s idx \<Longrightarrow> ravel s idx < prod_list s"
proof (induction s idx rule: valid_index.induct)
  case (2 n ns i "is")
  then have "i < n" and r: "ravel ns is < prod_list ns" by simp_all
  then have "Suc i \<le> n" by simp
  then have "Suc i * prod_list ns \<le> n * prod_list ns" by (rule mult_le_mono1)
  with r show ?case by simp
qed simp_all

lemma unravel_ravel: "valid_index s idx \<Longrightarrow> unravel s (ravel s idx) = idx"
proof (induction s idx rule: valid_index.induct)
  case (2 n ns i "is")
  then have r: "ravel ns is < prod_list ns" by (simp add: ravel_less)
  with 2 show ?case by simp
qed simp_all

lemma valid_unravel: "k < prod_list s \<Longrightarrow> valid_index s (unravel s k)"
proof (induction s arbitrary: k)
  case (Cons n ns)
  then have p: "0 < prod_list ns" by (cases "prod_list ns = 0") simp_all
  from Cons.prems have "k div prod_list ns < n"
    by (simp add: less_mult_imp_div_less mult.commute)
  moreover have "k mod prod_list ns < prod_list ns" using p by simp
  ultimately show ?case using Cons.IH by simp
qed simp

lemma ravel_unravel: "k < prod_list s \<Longrightarrow> ravel s (unravel s k) = k"
proof (induction s arbitrary: k)
  case (Cons n ns)
  then have p: "0 < prod_list ns" by (cases "prod_list ns = 0") simp_all
  then have "k mod prod_list ns < prod_list ns" by simp
  with Cons.IH show ?case by simp
qed simp

lemma clip_valid: "valid_index s idx \<Longrightarrow> map2 clip s idx = idx"
  by (induction s idx rule: valid_index.induct) (auto simp: clip_def)

lemma expand_same:
  assumes "wf_tensor t"
  shows "expand (shape t) t = data t"
proof -
  have "map (\<lambda>k. data t ! ravel (shape t) (map2 clip (shape t) (unravel (shape t) k)))
          [0..<prod_list (shape t)] = map (\<lambda>k. data t ! k) [0..<prod_list (shape t)]"
    by (rule map_cong) (simp_all add: clip_valid valid_unravel ravel_unravel)
  also have "\<dots> = data t" using assms map_nth [of "data t"] by (simp add: wf_tensor_def)
  finally show ?thesis by (simp add: expand_def pad_def Let_def)
qed

lemma broadcast_shapes_same: "broadcast_shapes s s = Some s"
proof -
  have "map2 bdim s s = s" by (induction s) (auto simp: bdim_def)
  moreover have "list_all2 compatible s s" by (simp add: list_all2_same compatible_def)
  ultimately show ?thesis by (simp add: broadcast_shapes_def pad_def)
qed

lemma binop_same_shape:
  assumes "wf_tensor a" and "wf_tensor b" and "shape a = shape b"
  shows "binop f a b = Inr \<lparr>shape = shape a, data = map2 f (data a) (data b)\<rparr>"
  using expand_same [OF assms(1)] expand_same [OF assms(2)] assms(3)
  by (simp add: binop_def broadcast_shapes_same)

lemma ravel_ones: "ravel (replicate n (Suc 0)) (map2 clip (replicate n (Suc 0)) idx) = 0"
proof (induction n arbitrary: idx)
  case (Suc n)
  then show ?case by (cases idx) (simp_all add: clip_def)
qed simp

lemma broadcast_shapes_scalar: "broadcast_shapes s [] = Some s"
proof -
  have "map2 bdim s (replicate (length s) 1) = s" by (induction s) (auto simp: bdim_def)
  moreover have "list_all2 compatible s (replicate (length s) 1)"
    by (induction s) (auto simp: compatible_def)
  ultimately show ?thesis by (simp add: broadcast_shapes_def pad_def)
qed

lemma expand_scalar: "shape t = [] \<Longrightarrow> expand s t = replicate (prod_list s) (data t ! 0)"
  by (simp add: expand_def pad_def ravel_ones map_replicate_const Let_def)

lemma map2_replicate_right: "length xs = n \<Longrightarrow> map2 f xs (replicate n y) = map (\<lambda>x. f x y) xs"
  by (induction xs arbitrary: n) auto

lemma binop_scalar:
  assumes "wf_tensor a" and "shape b = []"
  shows "binop f a b = Inr \<lparr>shape = shape a, data = map (\<lambda>x. f x (data b ! 0)) (data a)\<rparr>"
proof -
  have "map2 f (data a) (replicate (prod_list (shape a)) (data b ! 0)) = map (\<lambda>x. f x (data b ! 0)) (data a)"
    using assms(1) unfolding wf_tensor_def by (rule map2_replicate_right)
  then show ?thesis
    using expand_same [OF assms(1)] expand_scalar [OF assms(2)] assms(2)
    by (simp add: binop_def broadcast_shapes_scalar)
qed

lemma permute_120:
  assumes "shape t = [c, h, w]"
  shows "permute [1, 2, 0] t =
           Inr \<lparr>shape = [h, w, c],
                data = map (\<lambda>k. data t ! ravel [c, h, w]
                                  [unravel [h, w, c] k ! 2, unravel [h, w, c] k ! 0, unravel [h, w, c] k ! 1])
                           [0..<h * w * c]\<rparr>"
  using assms by (simp add: permute_def position_def upt_conv_Cons numeral_eq_Suc mult.assoc)

lemma tget_permute_120:
  assumes "shape t = [c, h, w]" and "permute [1, 2, 0] t = Inr p" and "i < h" and "j < w" and "k < c"
  shows "tget p [i, j, k] = tget t [k, i, j]"
proof -
  have v: "valid_index [h, w, c] [i, j, k]" using assms by simp
  have p: "p = \<lparr>shape = [h, w, c],
                data = map (\<lambda>k. data t ! ravel [c, h, w]
                                  [unravel [h, w, c] k ! 2, unravel [h, w, c] k ! 0, unravel [h, w, c] k ! 1])
                           [0..<h * w * c]\<rparr>"
    using permute_120 [OF assms(1)] assms(2) by simp
  have "ravel [h, w, c] [i, j, k] < h * w * c" using ravel_less [OF v] by (simp add: mult.assoc)
  then show ?thesis
    unfolding tget_def p assms(1) using unravel_ravel [OF v]
    by (simp del: ravel.simps unravel.simps)
qed

lemma tmax_ok: "data t \<noteq> [] \<Longrightarrow> tmax t = Inr \<lparr>shape = [], data = [fl_max (data t)]\<rparr>"
  by (simp add: tmax_def)

lemma wf_tmap: "wf_tensor t \<Longrightarrow> wf_tensor (tmap f t)"
  by (simp add: wf_tensor_def tmap_def)

lemma shape_tmap [simp]: "shape (tmap f t) = shape t"
  by (simp add: tmap_def)

lemma data_tmap [simp]: "data (tmap f t) = map f (data t)"
  by (simp add: tmap_def)

lemma binop_scalar_tmap:
  assumes "wf_tensor a"
  shows "binop f a \<lparr>shape = [], data = [m]\<rparr> = Inr (tmap (\<lambda>x. f x m) a)"
  using binop_scalar [OF assms, of "\<lparr>shape = [], data = [m]\<rparr>" f] by (simp add: tmap_def)

lemma permute_120_ex:
  assumes "shape t = [c, h, w]"
  shows "\<exists>p. permute [1, 2, 0] t = Inr p \<and> shape p = [h, w, c]"
  using permute_120 [OF assms] by simp

lemma tget_tmap:
  assumes "wf_tensor t" and "valid_index (shape t) idx"
  shows "tget (tmap f t) idx = f (tget t idx)"
  using assms ravel_less [OF assms(2)] by (simp add: tget_def wf_tensor_def)

lemma get_outputs_basic:
  assumes cam: "ns2gs_camera (orientation_transform self) (camera b) = Inr vc"
    and ren: "render env vc (gaussian_model self) (pipeline_params self)
                \<lparr>shape = [length (bg_color self)], data = map Fin (bg_color self)\<rparr>
                (scaling_modifier_slider self) None = Inr res"
    and img: "shape (rendered_image res) = [ci, hi, wi]"
    and dep: "shape (rendered_depth res) = [c, h, w]" "wf_tensor (rendered_depth res)"
             "data (rendered_depth res) \<noteq> []"
    and off: "\<not> do_seathru self"
  shows "\<exists>rgb depth.
           get_outputs_for_camera_ray_bundle env self b = Inr [''rgb'' \<mapsto> rgb, ''depth'' \<mapsto> depth] \<and>
           permute [1, 2, 0] (tmap (\<lambda>x. clamp x (Fin 0) (Fin 1)) (rendered_image res)) = Inr rgb \<and>
           permute [1, 2, 0] (tmap (\<lambda>x. fdiv x (fl_max (data (rendered_depth res)))) (rendered_depth res))
             = Inr depth \<and>
           shape depth = [h, w, c]"
proof -
  from permute_120_ex [of "tmap (\<lambda>x. clamp x (Fin 0) (Fin 1)) (rendered_image res)" ci hi wi] img
  obtain rgb where rgb: "permute [1, 2, 0] (tmap (\<lambda>x. clamp x (Fin 0) (Fin 1)) (rendered_image res)) = Inr rgb"
    by auto
  from permute_120_ex [of "tmap (\<lambda>x. fdiv x (fl_max (data (rendered_depth res)))) (rendered_depth res)" c h w] dep(1)
  obtain depth where depth: "permute [1, 2, 0] (tmap (\<lambda>x. fdiv x (fl_max (data (rendered_depth res)))) (rendered_depth res)) = Inr depth"
    "shape depth = [h, w, c]"
    by auto
  show ?thesis
    using cam ren rgb depth off
    by (simp add: get_outputs_for_camera_ray_bundle_def bind_err_def Let_def tmax_ok [OF dep(3)]
        binop_scalar_tmap [OF dep(2)])
qed

lemma squeeze_batch:
  assumes "shape t = [1, c, h, w]" and "c \<noteq> 1" and "h \<noteq> 1" and "w \<noteq> 1"
  shows "squeeze t = \<lparr>shape = [c, h, w], data = data t\<rparr>"
  using assms by (simp add: squeeze_def)

lemma get_outputs_seathru:
  assumes cam: "ns2gs_camera (orientation_transform self) (camera b) = Inr vc"
    and ren: "render env vc (gaussian_model self) (pipeline_params self)
                \<lparr>shape = [length (bg_color self)], data = map Fin (bg_color self)\<rparr>
                (scaling_modifier_slider self) None = Inr res"
    and img: "shape (rendered_image res) = [ci, hi, wi]"
    and dep: "shape (rendered_depth res) = [c, h, w]" "wf_tensor (rendered_depth res)"
             "data (rendered_depth res) \<noteq> []"
    and on: "do_seathru self" "at_model self = Some at_net" "bs_model self = Some bs_net"
    and at: "AttenuateNet env at_net (unsqueeze0 (rendered_image res)) (unsqueeze0 (rendered_depth res))
               = (direct, att)"
    and bs: "BackscatterNet env bs_net (unsqueeze0 (rendered_depth res)) = bsc"
    and sd: "shape direct = [1, dc, dh, dw]" "wf_tensor direct"
    and sb: "shape bsc = [1, dc, dh, dw]" "wf_tensor bsc"
    and sa: "shape att = [1, ac, ah, aw]"
    and ne: "dc \<noteq> 1" "dh \<noteq> 1" "dw \<noteq> 1" "ac \<noteq> 1" "ah \<noteq> 1" "aw \<noteq> 1"
  shows "\<exists>rgb od ob oa odi ou.
           get_outputs_for_camera_ray_bundle env self b =
             Inr [''rgb'' \<mapsto> rgb, ''depth'' \<mapsto> od, ''backscatter'' \<mapsto> ob, ''attenuation'' \<mapsto> oa,
                  ''direct'' \<mapsto> odi, ''underwater_image'' \<mapsto> ou] \<and>
           permute [1, 2, 0] (rendered_depth res) = Inr od \<and> shape od = [h, w, c] \<and>
           permute [1, 2, 0]
             \<lparr>shape = [dc, dh, dw],
              data = map (\<lambda>x. clamp x (Fin 0) (Fin 1)) (map2 fadd (data direct) (data bsc))\<rparr> = Inr ou \<and>
           shape ou = [dh, dw, dc]"
proof -
  let ?cl = "\<lambda>x. clamp x (Fin 0) (Fin 1)"
  from permute_120_ex [of "tmap ?cl (rendered_image res)" ci hi wi] img
  obtain rgb where rgb: "permute [1, 2, 0] (tmap ?cl (rendered_image res)) = Inr rgb"
    by auto
  from permute_120_ex [of "tmap (\<lambda>x. fdiv x (fl_max (data (rendered_depth res)))) (rendered_depth res)" c h w] dep(1)
  obtain depth where depth: "permute [1, 2, 0] (tmap (\<lambda>x. fdiv x (fl_max (data (rendered_depth res)))) (rendered_depth res)) = Inr depth"
    by auto
  from permute_120_ex [OF dep(1)]
  obtain od where od: "permute [1, 2, 0] (rendered_depth res) = Inr od" "shape od = [h, w, c]" by auto
  have sq_b: "squeeze bsc = \<lparr>shape = [dc, dh, dw], data = data bsc\<rparr>"
    and sq_d: "squeeze direct = \<lparr>shape = [dc, dh, dw], data = data direct\<rparr>"
    and sq_a: "squeeze att = \<lparr>shape = [ac, ah, aw], data = data att\<rparr>"
    using squeeze_batch sd(1) sb(1) sa ne by simp_all
  from permute_120_ex [of "squeeze bsc" dc dh dw] sq_b
  obtain ob where ob: "permute [1, 2, 0] (squeeze bsc) = Inr ob" by auto
  from permute_120_ex [of "squeeze direct" dc dh dw] sq_d
  obtain odi where odi: "permute [1, 2, 0] (squeeze direct) = Inr odi" by auto
  from permute_120_ex [of "squeeze att" ac ah aw] sq_a
  obtain oa where oa: "permute [1, 2, 0] (squeeze att) = Inr oa" by auto
  have add: "binop fadd direct bsc = Inr \<lparr>shape = [1, dc, dh, dw], data = map2 fadd (data direct) (data bsc)\<rparr>"
    using binop_same_shape [OF sd(2) sb(2), of fadd] sd(1) sb(1) by simp
  let ?uw = "tmap ?cl \<lparr>shape = [1, dc, dh, dw], data = map2 fadd (data direct) (data bsc)\<rparr>"
  have sq_u: "squeeze ?uw = \<lparr>shape = [dc, dh, dw], data = map ?cl (map2 fadd (data direct) (data bsc))\<rparr>"
    using ne by (simp add: squeeze_def tmap_def)
  from permute_120_ex [of "squeeze ?uw" dc dh dw] sq_u
  obtain ou where ou: "permute [1, 2, 0] (squeeze ?uw) = Inr ou" "shape ou = [dh, dw, dc]" by auto
  have "get_outputs_for_camera_ray_bundle env self b =
             Inr [''rgb'' \<mapsto> rgb, ''depth'' \<mapsto> od, ''backscatter'' \<mapsto> ob, ''attenuation'' \<mapsto> oa,
                  ''direct'' \<mapsto> odi, ''underwater_image'' \<mapsto> ou]"
    using cam ren rgb depth od ob odi oa ou on at bs add
    by (simp add: get_outputs_for_camera_ray_bundle_def bind_err_def Let_def tmax_ok [OF dep(3)]
        binop_scalar_tmap [OF dep(2)])
  with od ou(1) [unfolded sq_u] ou(2) show ?thesis by blast
qed

lemma init_flag:
  assumes "GaussianSplatting_init env cfg pc mp li ot bsp atp = Inr st"
  shows "do_seathru st = (atp \<noteq> Some ''None'' \<and> bsp \<noteq> Some ''None'')"
    and "do_seathru st = (at_model st \<noteq> None \<and> bs_model st \<noteq> None)"
  using assms
  by (auto simp: GaussianSplatting_init_def bind_err_def Let_def split: if_splits sum.splits)





lemma ns2gs_camera_exact: "ns2gs_camera ot cam = ns2gs_camera_inv exact_inv ot cam"
proof -
  have "linalg_inv m = (case exact_inv m of None \<Rightarrow> Inl LinAlgError | Some w \<Rightarrow> Inr w)" for m
    by (simp add: exact_inv_def linalg_inv_def Let_def)
  then show ?thesis by (simp add: ns2gs_camera_def ns2gs_camera_inv_def)
qed












section \<open>The examples evaluated\<close>


lemma ex_cam_inverse:
  "linalg_inv (spec_corrected_c2w (Some ex_orientation) (camera_to_worlds ex_cam)) =
     Inr [[0, 1, 0, - 1], [0, 0, - 1, 2], [- 1, 0, 0, 3], [0, 0, 0, 1]]"
  by code_simp

lemma ex_cam_shape:
  "is_matrix 3 4 (camera_to_worlds ex_cam)" "is_matrix 4 4 ex_orientation"
  by (simp_all add: is_matrix_def ex_cam_def ex_orientation_def)



lemma ex_plain_inverse:
  "linalg_inv (spec_corrected_c2w None (camera_to_worlds ex_cam)) =
     Inr [[1, 0, 0, - 1], [0, - 1, 0, 2], [0, 0, - 1, 3], [0, 0, 0, 1]]"
  by code_simp

lemma ex_viewpoint_eq: "ns2gs_camera None ex_cam = Inr ex_viewpoint"
  using ns2gs_camera_spec [of ex_cam None] ex_cam_shape(1) ex_plain_inverse
  by (simp add: spec_camera_def spec_R_def spec_T_def upt3 ex_viewpoint_def) (simp add: ex_cam_def)

lemma ex_render:
  "render ex_env ex_viewpoint ex_pc PipelineParams_init \<lparr>shape = [3], data = [Fin 0, Fin 0, Fin 0]\<rparr> 1 None
     = Inr ex_results"
  by (simp add: render_def color_source_def PipelineParams_init_def bind_err_def ex_env_def
      render_inputs_def ex_results_def zeros_like_def tmap_def ex_pc_def ex_radii_def
      numeral_eq_Suc)

lemma ex_init_plain:
  "GaussianSplatting_init ex_env ex_config ex_pc (Some ''out'') (- 1) None (Some ''None'') (Some ''None'')
     = Inr ex_plain"
  by (simp add: GaussianSplatting_init_def ex_plain_def ex_config_def Let_def)

lemma ex_init_seathru:
  "GaussianSplatting_init ex_env ex_config ex_pc (Some ''out'') (- 1) None (Some ''bs.pth'') (Some ''at.pth'')
     = Inr ex_seathru"
  by (simp add: GaussianSplatting_init_def ex_seathru_def ex_config_def Let_def bind_err_def ex_env_def)


lemma ex_plain_fields:
  "orientation_transform ex_plain = None" "gaussian_model ex_plain = ex_pc"
  "pipeline_params ex_plain = PipelineParams_init" "bg_color ex_plain = [0, 0, 0]"
  "scaling_modifier_slider ex_plain = 1" "\<not> do_seathru ex_plain"
  "at_model ex_plain = None" "bs_model ex_plain = None"
  by (simp_all add: ex_plain_def)

lemma ex_seathru_fields:
  "orientation_transform ex_seathru = None" "gaussian_model ex_seathru = ex_pc"
  "pipeline_params ex_seathru = PipelineParams_init" "bg_color ex_seathru = [0, 0, 0]"
  "scaling_modifier_slider ex_seathru = 1" "do_seathru ex_seathru"
  "at_model ex_seathru = Some 6" "bs_model ex_seathru = Some 6"
  by (simp_all add: ex_seathru_def)

lemma ex_shapes:
  "shape (rendered_image ex_results) = [3, 2, 2]" "shape (rendered_depth ex_results) = [1, 2, 2]"
  "wf_tensor (rendered_depth ex_results)" "data (rendered_depth ex_results) \<noteq> []"
  "wf_tensor (rendered_image ex_results)"
  by (simp_all add: ex_results_def ex_image_def ex_depth_def wf_tensor_def)

lemma ex_nets:
  "AttenuateNet ex_env 6 (unsqueeze0 (rendered_image ex_results)) (unsqueeze0 (rendered_depth ex_results))
     = (unsqueeze0 ex_image, \<lparr>shape = [1, 3, 2, 2], data = replicate 12 (Fin 0.5)\<rparr>)"
  "BackscatterNet ex_env 6 (unsqueeze0 (rendered_depth ex_results))
     = \<lparr>shape = [1, 3, 2, 2], data = replicate 12 (Fin 0.25)\<rparr>"
  "shape (unsqueeze0 ex_image) = [1, 3, 2, 2]" "wf_tensor (unsqueeze0 ex_image)"
  "wf_tensor \<lparr>shape = [1, 3, 2, 2], data = replicate 12 (Fin 0.25)\<rparr>"
  by (simp_all add: ex_env_def ex_results_def unsqueeze0_def ex_image_def wf_tensor_def)

lemma ex_plain_self: "ex_plain = ex_plain\<lparr>scaling_modifier_slider := 1\<rparr>"
  by (simp add: ex_plain_def)

lemma ex_plain_cam: "ns2gs_camera (orientation_transform ex_plain) (camera ex_bundle) = Inr ex_viewpoint"
  by (simp add: ex_plain_fields ex_bundle_def ex_viewpoint_eq)

lemma ex_plain_render:
  "render ex_env ex_viewpoint (gaussian_model ex_plain) (pipeline_params ex_plain)
     \<lparr>shape = [length (bg_color ex_plain)], data = map Fin (bg_color ex_plain)\<rparr>
     (scaling_modifier_slider ex_plain) None = Inr ex_results"
  unfolding ex_plain_fields using ex_render by (simp add: numeral_3_eq_3)

lemma ex_seathru_cam: "ns2gs_camera (orientation_transform ex_seathru) (camera ex_bundle) = Inr ex_viewpoint"
  by (simp add: ex_seathru_fields ex_bundle_def ex_viewpoint_eq)

lemma ex_seathru_render:
  "render ex_env ex_viewpoint (gaussian_model ex_seathru) (pipeline_params ex_seathru)
     \<lparr>shape = [length (bg_color ex_seathru)], data = map Fin (bg_color ex_seathru)\<rparr>
     (scaling_modifier_slider ex_seathru) None = Inr ex_results"
  unfolding ex_seathru_fields using ex_render by (simp add: numeral_3_eq_3)

lemma ex_depth_values:
  "tget (rendered_depth ex_results) [0, 0, 0] = Fin 5" "fl_max (data (rendered_depth ex_results)) = Fin 10"
  by (simp_all add: ex_results_def ex_depth_def tget_def fmax2_def)

lemma ex_seathru_shapes:
  "shape \<lparr>shape = [1, 3, 2, 2], data = replicate 12 (Fin 0.25)\<rparr> = [1, 3, 2, 2]"
  "shape \<lparr>shape = [1, 3, 2, 2], data = replicate 12 (Fin 0.5)\<rparr> = [1, 3, 2, 2]"
  "(3::nat) \<noteq> 1" "(2::nat) \<noteq> 1"
  by simp_all

lemma ex_underwater_values:
  "clamp (fadd (tget (unsqueeze0 ex_image) [0, 0, 0, 0])
               (tget \<lparr>shape = [1, 3, 2, 2], data = replicate 12 (Fin 0.25)\<rparr> [0, 0, 0, 0])) (Fin 0) (Fin 1)
     = Fin 0.45"
  "clamp (fadd (tget (unsqueeze0 ex_image) [0, 0, 1, 0])
               (tget \<lparr>shape = [1, 3, 2, 2], data = replicate 12 (Fin 0.25)\<rparr> [0, 0, 1, 0])) (Fin 0) (Fin 1)
     = Fin 1"
  by (simp_all add: tget_def unsqueeze0_def ex_image_def clamp_def fmin2_def fmax2_def numeral_eq_Suc)





section \<open>The claims\<close>

subsection \<open>Camera conversion\<close>

text \<open>
  C1: for every camera pose (a 3 by 4 camera-to-world matrix, and a 4 by 4 orientation
  correction when one is configured), \<open>ns2gs_camera\<close> does what the specification
  describes: it appends the row \<open>[0, 0, 0, 1]\<close>, left-multiplies the orientation
  correction if there is one, negates exactly columns 1 and 2 of the first three rows,
  inverts the result, and returns \<open>R\<close> as the transpose of the upper-left 3 by 3 block
  of the inverse and \<open>T\<close> as its translation column (\<open>spec_camera\<close>); whenever the
  inversion succeeds its result is a two-sided inverse of the corrected matrix.
\<close>

theorem ns2gs_camera_conversion:
  assumes "is_matrix 3 4 (camera_to_worlds cam)" and "\<forall>t. ot = Some t \<longrightarrow> is_matrix 4 4 t"
  shows "ns2gs_camera ot cam = spec_camera ot cam \<and>
         (\<forall>w2c. linalg_inv (spec_corrected_c2w ot (camera_to_worlds cam)) = Inr w2c \<longrightarrow>
            matmul w2c (spec_corrected_c2w ot (camera_to_worlds cam)) = Inr (identity 4) \<and>
            matmul (spec_corrected_c2w ot (camera_to_worlds cam)) w2c = Inr (identity 4))"
  using ns2gs_camera_spec [OF assms] camera_steps(4) [OF assms] linalg_inv_inverse by blast

theorem ns2gs_camera_conversion_witness:
  "ns2gs_camera (Some ex_orientation) ex_cam =
     Inr \<lparr>R = [[0, 0, - 1], [1, 0, 0], [0, - 1, 0]], T = [- 1, 2, 3],
          image_width = 4, image_height = 2,
          FoVx = 2 * arctan (4 / (2 * 3)), FoVy = 2 * arctan (2 / (2 * 5))\<rparr> \<and>
   matmul [[0, 1, 0, - 1], [0, 0, - 1, 2], [- 1, 0, 0, 3], [0, 0, 0, 1]]
          (spec_corrected_c2w (Some ex_orientation) (camera_to_worlds ex_cam)) = Inr (identity 4)"
  using ns2gs_camera_conversion [of ex_cam "Some ex_orientation"] ex_cam_shape ex_cam_inverse
  by (simp add: spec_camera_def spec_R_def spec_T_def upt3) (simp add: ex_cam_def)




text \<open>
  C7: for every positive focal length \<open>f\<close> and positive pixel dimension \<open>d\<close>, converting the
  focal length to a field of view and back returns the focal length:
  \<open>fov2focal (focal2fov f d) d = f\<close>, over the reals.
\<close>

theorem fov_focal_roundtrip:
  assumes "0 < f" and "0 < d"
  shows "fov2focal (focal2fov f d) d = f"
  using assms by (simp add: fov2focal_def focal2fov_def tan_arctan)

theorem fov_focal_roundtrip_witness:
  "(0::real) < 3 \<and> (0::real) < 4 \<and> fov2focal (focal2fov 3 4) 4 = 3"
  using fov_focal_roundtrip [of 3 4] by simp

subsection \<open>Rendering\<close>

text \<open>
  C5: for every result that \<open>render\<close> returns, \<open>radii\<close> is the per-Gaussian screen
  radii returned by the rasterizer and the visibility filter equals \<open>radii > 0\<close>
  elementwise: every Gaussian of positive radius is marked visible and every Gaussian of
  radius zero is marked invisible.
\<close>

theorem visibility_filter_positive_radii:
  assumes "render env vc pc pipe bgc sm oc = Inr res"
  shows "\<exists>colors. color_source env vc pc pipe oc = Inr colors \<and>
           radii res = fst (snd (rasterizer env (render_settings env vc pc pipe bgc sm)
                                   (render_inputs pc pipe sm colors))) \<and>
           visibility_filter res = tmap (\<lambda>r. 0 < r) (radii res) \<and>
           shape (visibility_filter res) = shape (radii res) \<and>
           length (data (visibility_filter res)) = length (data (radii res)) \<and>
           (\<forall>i<length (data (radii res)).
              (0 < data (radii res) ! i \<longrightarrow> data (visibility_filter res) ! i) \<and>
              (data (radii res) ! i = 0 \<longrightarrow> \<not> data (visibility_filter res) ! i))"
  using assms
  by (auto simp: render_def bind_err_def Let_def split: sum.splits prod.splits)

theorem visibility_filter_positive_radii_witness:
  "render ex_env ex_viewpoint ex_pc PipelineParams_init \<lparr>shape = [3], data = [Fin 0, Fin 0, Fin 0]\<rparr> 1 None
     = Inr ex_results \<and>
   radii ex_results = \<lparr>shape = [3], data = [3, 0, 5]\<rparr> \<and>
   visibility_filter ex_results = \<lparr>shape = [3], data = [True, False, True]\<rparr>"
proof -
  note t = visibility_filter_positive_radii [OF ex_render]
  from t obtain colors where p:
    "color_source ex_env ex_viewpoint ex_pc PipelineParams_init None = Inr colors \<and>
     radii ex_results = fst (snd (rasterizer ex_env
        (render_settings ex_env ex_viewpoint ex_pc PipelineParams_init \<lparr>shape = [3], data = [Fin 0, Fin 0, Fin 0]\<rparr> 1)
        (render_inputs ex_pc PipelineParams_init 1 colors))) \<and>
     visibility_filter ex_results = tmap (\<lambda>r. 0 < r) (radii ex_results) \<and>
     shape (visibility_filter ex_results) = shape (radii ex_results) \<and>
     length (data (visibility_filter ex_results)) = length (data (radii ex_results)) \<and>
     (\<forall>i<length (data (radii ex_results)).
        (0 < data (radii ex_results) ! i \<longrightarrow> data (visibility_filter ex_results) ! i) \<and>
        (data (radii ex_results) ! i = 0 \<longrightarrow> \<not> data (visibility_filter ex_results) ! i))" ..
  from p have r: "radii ex_results = fst (snd (rasterizer ex_env
        (render_settings ex_env ex_viewpoint ex_pc PipelineParams_init \<lparr>shape = [3], data = [Fin 0, Fin 0, Fin 0]\<rparr> 1)
        (render_inputs ex_pc PipelineParams_init 1 colors)))"
    by (rule conjunct2 [THEN conjunct1])
  from p have v: "visibility_filter ex_results = tmap (\<lambda>r. 0 < r) (radii ex_results)"
    by (rule conjunct2 [THEN conjunct2, THEN conjunct1])
  have r': "radii ex_results = \<lparr>shape = [3], data = [3, 0, 5]\<rparr>"
    unfolding r by (simp add: ex_env_def ex_radii_def)
  show ?thesis
    unfolding v r' by (simp add: ex_render tmap_def)
qed



subsection \<open>Post-processing and compositing\<close>

text \<open>
  C2, as stated: the returned depth image is the raw depth divided by the frame maximum
  whether or not underwater compositing is enabled. It is not: with compositing enabled,
  a pixel of raw depth 5 in a frame of maximum depth 10 is returned as 5, not as 0.5.
\<close>

theorem depth_output_counterexample:
  "do_seathru ex_seathru \<and>
   tget (rendered_depth ex_results) [0, 0, 0] = Fin 5 \<and>
   fl_max (data (rendered_depth ex_results)) = Fin 10 \<and>
   output_at (get_outputs_for_camera_ray_bundle ex_env ex_seathru ex_bundle) ''depth'' [0, 0, 0] = Some (Fin 5) \<and>
   output_at (get_outputs_for_camera_ray_bundle ex_env ex_seathru ex_bundle) ''depth'' [0, 0, 0]
     \<noteq> Some (fdiv (Fin 5) (Fin 10))"
proof -
  note t = get_outputs_seathru [OF ex_seathru_cam ex_seathru_render ex_shapes(1,2,3,4)
      ex_seathru_fields(6,7,8) ex_nets(1,2,3,4) ex_seathru_shapes(1) ex_nets(5) ex_seathru_shapes(2)
      ex_seathru_shapes(3,4,4,3,4,4)]
  from t obtain rgb where "\<exists>od ob oa odi ou.
           get_outputs_for_camera_ray_bundle ex_env ex_seathru ex_bundle =
             Inr [''rgb'' \<mapsto> rgb, ''depth'' \<mapsto> od, ''backscatter'' \<mapsto> ob, ''attenuation'' \<mapsto> oa,
                  ''direct'' \<mapsto> odi, ''underwater_image'' \<mapsto> ou] \<and>
           permute [1, 2, 0] (rendered_depth ex_results) = Inr od \<and> shape od = [2, 2, 1] \<and>
           permute [1, 2, 0]
             \<lparr>shape = [3, 2, 2],
              data = map (\<lambda>x. clamp x (Fin 0) (Fin 1))
                       (map2 fadd (data (unsqueeze0 ex_image)) (data \<lparr>shape = [1, 3, 2, 2], data = replicate 12 (Fin 0.25)\<rparr>))\<rparr> = Inr ou \<and>
           shape ou = [2, 2, 3]" ..
  then obtain od where "\<exists>ob oa odi ou.
           get_outputs_for_camera_ray_bundle ex_env ex_seathru ex_bundle =
             Inr [''rgb'' \<mapsto> rgb, ''depth'' \<mapsto> od, ''backscatter'' \<mapsto> ob, ''attenuation'' \<mapsto> oa,
                  ''direct'' \<mapsto> odi, ''underwater_image'' \<mapsto> ou] \<and>
           permute [1, 2, 0] (rendered_depth ex_results) = Inr od \<and> shape od = [2, 2, 1] \<and>
           permute [1, 2, 0]
             \<lparr>shape = [3, 2, 2],
              data = map (\<lambda>x. clamp x (Fin 0) (Fin 1))
                       (map2 fadd (data (unsqueeze0 ex_image)) (data \<lparr>shape = [1, 3, 2, 2], data = replicate 12 (Fin 0.25)\<rparr>))\<rparr> = Inr ou \<and>
           shape ou = [2, 2, 3]" ..
  then obtain ob oa odi ou where
    o: "get_outputs_for_camera_ray_bundle ex_env ex_seathru ex_bundle =
             Inr [''rgb'' \<mapsto> rgb, ''depth'' \<mapsto> od, ''backscatter'' \<mapsto> ob, ''attenuation'' \<mapsto> oa,
                  ''direct'' \<mapsto> odi, ''underwater_image'' \<mapsto> ou]"
    and p: "permute [1, 2, 0] (rendered_depth ex_results) = Inr od"
    by (elim exE conjE)
  have "tget od [0, 0, 0] = tget (rendered_depth ex_results) [0, 0, 0]"
    by (rule tget_permute_120 [OF ex_shapes(2) p]) simp_all
  then have od: "tget od [0, 0, 0] = Fin 5" by (simp only: ex_depth_values)
  have look: "output_at (get_outputs_for_camera_ray_bundle ex_env ex_seathru ex_bundle) ''depth'' [0, 0, 0]
                = Some (tget od [0, 0, 0])"
    unfolding o output_at_def by simp
  show ?thesis
    unfolding look od by (simp add: ex_depth_values ex_seathru_fields(6))
qed

text \<open>
  C2, amended: for every render call whose rasterizer returns a three-dimensional colour
  image and a non-empty three-dimensional depth image of shape \<open>[c, h, w]\<close>: when
  underwater compositing is disabled, the call returns a bundle whose depth image has
  shape \<open>[h, w, c]\<close> and at every pixel equals the raw rendered depth divided by the
  maximum depth of the frame, so that a pixel of raw depth 5 in a frame of maximum depth
  10 yields exactly 0.5; when compositing is enabled, the depth image of a returned
  bundle is the raw rendered depth, reordered the same way and not normalized.
\<close>

theorem depth_output:
  assumes cam: "ns2gs_camera (orientation_transform self) (camera b) = Inr vc"
    and ren: "render env vc (gaussian_model self) (pipeline_params self)
                \<lparr>shape = [length (bg_color self)], data = map Fin (bg_color self)\<rparr>
                (scaling_modifier_slider self) None = Inr res"
    and img: "shape (rendered_image res) = [ci, hi, wi]"
    and dep: "shape (rendered_depth res) = [c, h, w]" "wf_tensor (rendered_depth res)"
             "data (rendered_depth res) \<noteq> []"
  shows "(\<not> do_seathru self \<longrightarrow>
            (\<exists>out d. get_outputs_for_camera_ray_bundle env self b = Inr out \<and>
                out ''depth'' = Some d \<and> shape d = [h, w, c] \<and>
                (\<forall>i<h. \<forall>j<w. \<forall>k<c.
                   tget d [i, j, k] =
                     fdiv (tget (rendered_depth res) [k, i, j]) (fl_max (data (rendered_depth res))) \<and>
                   (tget (rendered_depth res) [k, i, j] = Fin 5 \<and>
                    fl_max (data (rendered_depth res)) = Fin 10 \<longrightarrow> tget d [i, j, k] = Fin 0.5)))) \<and>
         (do_seathru self \<longrightarrow>
            (\<forall>out. get_outputs_for_camera_ray_bundle env self b = Inr out \<longrightarrow>
               (\<exists>d. out ''depth'' = Some d \<and> shape d = [h, w, c] \<and>
                  (\<forall>i<h. \<forall>j<w. \<forall>k<c. tget d [i, j, k] = tget (rendered_depth res) [k, i, j]))))"
proof (intro conjI impI)
  let ?D = "rendered_depth res"
  let ?N = "tmap (\<lambda>x. fdiv x (fl_max (data ?D))) ?D"
  assume off: "\<not> do_seathru self"
  from get_outputs_basic [OF cam ren img dep off] obtain rgb depth where
    out: "get_outputs_for_camera_ray_bundle env self b = Inr [''rgb'' \<mapsto> rgb, ''depth'' \<mapsto> depth]"
    and p: "permute [1, 2, 0] ?N = Inr depth" and sh: "shape depth = [h, w, c]"
    by blast
  have el: "tget depth [i, j, k] = fdiv (tget ?D [k, i, j]) (fl_max (data ?D))"
    if "i < h" "j < w" "k < c" for i j k
  proof -
    have "tget depth [i, j, k] = tget ?N [k, i, j]"
      using tget_permute_120 [OF _ p that] dep(1) by simp
    also have "\<dots> = fdiv (tget ?D [k, i, j]) (fl_max (data ?D))"
      using tget_tmap [OF dep(2), of "[k, i, j]"] dep(1) that by simp
    finally show ?thesis .
  qed
  show "\<exists>out d. get_outputs_for_camera_ray_bundle env self b = Inr out \<and>
                out ''depth'' = Some d \<and> shape d = [h, w, c] \<and>
                (\<forall>i<h. \<forall>j<w. \<forall>k<c.
                   tget d [i, j, k] = fdiv (tget ?D [k, i, j]) (fl_max (data ?D)) \<and>
                   (tget ?D [k, i, j] = Fin 5 \<and> fl_max (data ?D) = Fin 10 \<longrightarrow> tget d [i, j, k] = Fin 0.5))"
    using out sh el by (intro exI [of _ "[''rgb'' \<mapsto> rgb, ''depth'' \<mapsto> depth]"] exI [of _ depth]) auto
next
  let ?D = "rendered_depth res"
  assume on: "do_seathru self"
  from permute_120_ex [OF dep(1)]
  obtain od where od: "permute [1, 2, 0] ?D = Inr od" "shape od = [h, w, c]" by auto
  have el: "tget od [i, j, k] = tget ?D [k, i, j]" if "i < h" "j < w" "k < c" for i j k
    using tget_permute_120 [OF dep(1) od(1) that] .
  have "out ''depth'' = Some od" if "get_outputs_for_camera_ray_bundle env self b = Inr out" for out
    using that cam ren on od(1)
    by (auto simp: get_outputs_for_camera_ray_bundle_def bind_err_def Let_def
        split: sum.splits option.splits prod.splits)
  with od(2) el
  show "\<forall>out. get_outputs_for_camera_ray_bundle env self b = Inr out \<longrightarrow>
               (\<exists>d. out ''depth'' = Some d \<and> shape d = [h, w, c] \<and>
                  (\<forall>i<h. \<forall>j<w. \<forall>k<c. tget d [i, j, k] = tget ?D [k, i, j]))"
    by auto
qed

theorem depth_output_witness:
  "\<not> do_seathru ex_plain \<and>
   tget (rendered_depth ex_results) [0, 0, 0] = Fin 5 \<and>
   fl_max (data (rendered_depth ex_results)) = Fin 10 \<and>
   output_at (get_outputs_for_camera_ray_bundle ex_env ex_plain ex_bundle) ''depth'' [0, 0, 0] = Some (Fin 0.5)"
proof -
  note t = depth_output [OF ex_plain_cam ex_plain_render ex_shapes(1,2,3,4)]
  from t [THEN conjunct1, THEN mp, OF ex_plain_fields(6)]
  obtain out where "\<exists>d. get_outputs_for_camera_ray_bundle ex_env ex_plain ex_bundle = Inr out \<and>
                out ''depth'' = Some d \<and> shape d = [2, 2, 1] \<and>
                (\<forall>i<2. \<forall>j<2. \<forall>k<1.
                   tget d [i, j, k] =
                     fdiv (tget (rendered_depth ex_results) [k, i, j]) (fl_max (data (rendered_depth ex_results))) \<and>
                   (tget (rendered_depth ex_results) [k, i, j] = Fin 5 \<and>
                    fl_max (data (rendered_depth ex_results)) = Fin 10 \<longrightarrow> tget d [i, j, k] = Fin 0.5))" ..
  then obtain d where p: "get_outputs_for_camera_ray_bundle ex_env ex_plain ex_bundle = Inr out \<and>
                out ''depth'' = Some d \<and> shape d = [2, 2, 1] \<and>
                (\<forall>i<2. \<forall>j<2. \<forall>k<1.
                   tget d [i, j, k] =
                     fdiv (tget (rendered_depth ex_results) [k, i, j]) (fl_max (data (rendered_depth ex_results))) \<and>
                   (tget (rendered_depth ex_results) [k, i, j] = Fin 5 \<and>
                    fl_max (data (rendered_depth ex_results)) = Fin 10 \<longrightarrow> tget d [i, j, k] = Fin 0.5))" ..
  from p have o: "get_outputs_for_camera_ray_bundle ex_env ex_plain ex_bundle = Inr out"
    by (rule conjunct1)
  from p have od: "out ''depth'' = Some d"
    by (rule conjunct2 [THEN conjunct1])
  note el = p [THEN conjunct2, THEN conjunct2, THEN conjunct2, rule_format, of 0 0 0]
  have "tget d [0, 0, 0] = Fin 0.5"
    using el ex_depth_values by simp
  then show ?thesis
    by (simp add: o od output_at_def ex_depth_values ex_plain_fields(6))
qed

text \<open>
  C3: for every object built by the constructor, with any value of the viewer slider:
  whenever either compositing model is unset (the attribute holds no model, or the path
  argument is the sentinel string \<open>"None"\<close>), a render call whose rasterizer returns a
  three-dimensional colour image and a non-empty three-dimensional depth image returns a
  dictionary whose key set is exactly \<open>{rgb, depth}\<close>; it holds none of the keys
  \<open>backscatter\<close>, \<open>attenuation\<close>, \<open>direct\<close>, \<open>underwater_image\<close>.
\<close>

theorem unset_models_rgb_depth_only:
  assumes init: "GaussianSplatting_init env cfg pc mp li ot bsp atp = Inr st"
    and self: "self = st\<lparr>scaling_modifier_slider := v\<rparr>"
    and unset: "at_model self = None \<or> bs_model self = None \<or> atp = Some ''None'' \<or> bsp = Some ''None''"
    and cam: "ns2gs_camera (orientation_transform self) (camera b) = Inr vc"
    and ren: "render env vc (gaussian_model self) (pipeline_params self)
                \<lparr>shape = [length (bg_color self)], data = map Fin (bg_color self)\<rparr>
                (scaling_modifier_slider self) None = Inr res"
    and img: "shape (rendered_image res) = [ci, hi, wi]"
    and dep: "shape (rendered_depth res) = [c, h, w]" "wf_tensor (rendered_depth res)"
             "data (rendered_depth res) \<noteq> []"
  shows "\<exists>out. get_outputs_for_camera_ray_bundle env self b = Inr out \<and>
               dom out = {''rgb'', ''depth''} \<and>
               out ''backscatter'' = None \<and> out ''attenuation'' = None \<and>
               out ''direct'' = None \<and> out ''underwater_image'' = None"
proof -
  from init_flag [OF init] unset self have off: "\<not> do_seathru self" by auto
  from get_outputs_basic [OF cam ren img dep off] obtain rgb depth where
    "get_outputs_for_camera_ray_bundle env self b = Inr [''rgb'' \<mapsto> rgb, ''depth'' \<mapsto> depth]"
    by blast
  then show ?thesis by auto
qed

theorem unset_models_rgb_depth_only_witness:
  "GaussianSplatting_init ex_env ex_config ex_pc (Some ''out'') (- 1) None (Some ''None'') (Some ''None'')
     = Inr ex_plain \<and>
   at_model ex_plain = None \<and>
   output_keys (get_outputs_for_camera_ray_bundle ex_env ex_plain ex_bundle) = {''rgb'', ''depth''}"
proof -
  have "at_model ex_plain = None \<or> bs_model ex_plain = None \<or> Some ''None'' = Some ''None''
          \<or> Some ''None'' = Some ''None''"
    by (simp add: ex_plain_fields)
  from unset_models_rgb_depth_only [OF ex_init_plain ex_plain_self this ex_plain_cam ex_plain_render
      ex_shapes(1,2,3,4)]
  obtain out where "get_outputs_for_camera_ray_bundle ex_env ex_plain ex_bundle = Inr out"
    "dom out = {''rgb'', ''depth''}" by blast
  then show ?thesis
    by (simp add: output_keys_def ex_init_plain ex_plain_fields)
qed

text \<open>
  C4: when underwater compositing runs, with \<open>direct\<close> the first output of the
  attenuation network on the (colour, depth) pair and \<open>backscatter\<close> the output of the
  backscatter network on the depth alone, both of shape \<open>[1, C, H, W]\<close> with no further
  dimension of size one: the render call returns a bundle whose underwater image has
  shape \<open>[H, W, C]\<close> and at every pixel equals \<open>clamp(direct + backscatter, 0, 1)\<close>.
\<close>

theorem underwater_image_composite:
  assumes cam: "ns2gs_camera (orientation_transform self) (camera b) = Inr vc"
    and ren: "render env vc (gaussian_model self) (pipeline_params self)
                \<lparr>shape = [length (bg_color self)], data = map Fin (bg_color self)\<rparr>
                (scaling_modifier_slider self) None = Inr res"
    and img: "shape (rendered_image res) = [ci, hi, wi]"
    and dep: "shape (rendered_depth res) = [c, h, w]" "wf_tensor (rendered_depth res)"
             "data (rendered_depth res) \<noteq> []"
    and on: "do_seathru self" "at_model self = Some at_net" "bs_model self = Some bs_net"
    and at: "AttenuateNet env at_net (unsqueeze0 (rendered_image res)) (unsqueeze0 (rendered_depth res))
               = (direct, att)"
    and bs: "BackscatterNet env bs_net (unsqueeze0 (rendered_depth res)) = backscatter"
    and sd: "shape direct = [1, dc, dh, dw]" "wf_tensor direct"
    and sb: "shape backscatter = [1, dc, dh, dw]" "wf_tensor backscatter"
    and sa: "shape att = [1, ac, ah, aw]"
    and ne: "dc \<noteq> 1" "dh \<noteq> 1" "dw \<noteq> 1" "ac \<noteq> 1" "ah \<noteq> 1" "aw \<noteq> 1"
  shows "\<exists>out u. get_outputs_for_camera_ray_bundle env self b = Inr out \<and>
           out ''underwater_image'' = Some u \<and> shape u = [dh, dw, dc] \<and>
           (\<forall>i<dh. \<forall>j<dw. \<forall>k<dc.
              tget u [i, j, k] =
                clamp (fadd (tget direct [0, k, i, j]) (tget backscatter [0, k, i, j])) (Fin 0) (Fin 1))"
proof -
  let ?cl = "\<lambda>x. clamp x (Fin 0) (Fin 1)"
  let ?U = "\<lparr>shape = [dc, dh, dw], data = map ?cl (map2 fadd (data direct) (data backscatter))\<rparr>"
  from get_outputs_seathru [OF cam ren img dep on at bs sd sb sa ne]
  obtain rgb od ob oa odi ou where
    out: "get_outputs_for_camera_ray_bundle env self b =
             Inr [''rgb'' \<mapsto> rgb, ''depth'' \<mapsto> od, ''backscatter'' \<mapsto> ob, ''attenuation'' \<mapsto> oa,
                  ''direct'' \<mapsto> odi, ''underwater_image'' \<mapsto> ou]"
    and p: "permute [1, 2, 0] ?U = Inr ou" and sh: "shape ou = [dh, dw, dc]"
    by blast
  have el: "tget ou [i, j, k] = ?cl (fadd (tget direct [0, k, i, j]) (tget backscatter [0, k, i, j]))"
    if "i < dh" "j < dw" "k < dc" for i j k
  proof -
    have v: "valid_index [dc, dh, dw] [k, i, j]" using that by simp
    have r: "ravel [dc, dh, dw] [k, i, j] < dc * dh * dw"
      using ravel_less [OF v] by (simp add: mult.assoc)
    have ld: "length (data direct) = dc * dh * dw" "length (data backscatter) = dc * dh * dw"
      using sd sb by (simp_all add: wf_tensor_def mult.assoc)
    have "tget ou [i, j, k] = tget ?U [k, i, j]"
      using tget_permute_120 [OF _ p that] by simp
    also have "\<dots> = ?cl (fadd (data direct ! ravel [dc, dh, dw] [k, i, j])
                               (data backscatter ! ravel [dc, dh, dw] [k, i, j]))"
      using r ld by (simp add: tget_def del: ravel.simps)
    also have "\<dots> = ?cl (fadd (tget direct [0, k, i, j]) (tget backscatter [0, k, i, j]))"
      by (simp add: tget_def sd(1) sb(1))
    finally show ?thesis .
  qed
  show ?thesis
    using out sh el
    by (intro exI [of _ "[''rgb'' \<mapsto> rgb, ''depth'' \<mapsto> od, ''backscatter'' \<mapsto> ob, ''attenuation'' \<mapsto> oa,
                  ''direct'' \<mapsto> odi, ''underwater_image'' \<mapsto> ou]"] exI [of _ ou]) auto
qed

theorem underwater_image_composite_witness:
  "do_seathru ex_seathru \<and>
   output_at (get_outputs_for_camera_ray_bundle ex_env ex_seathru ex_bundle) ''underwater_image'' [0, 0, 0]
     = Some (Fin 0.45) \<and>
   output_at (get_outputs_for_camera_ray_bundle ex_env ex_seathru ex_bundle) ''underwater_image'' [1, 0, 0]
     = Some (Fin 1)"
proof -
  note t = underwater_image_composite [OF ex_seathru_cam ex_seathru_render ex_shapes(1,2,3,4)
      ex_seathru_fields(6,7,8) ex_nets(1,2,3,4) ex_seathru_shapes(1) ex_nets(5) ex_seathru_shapes(2)
      ex_seathru_shapes(3,4,4,3,4,4)]
  from t obtain out where "\<exists>u. get_outputs_for_camera_ray_bundle ex_env ex_seathru ex_bundle = Inr out \<and>
           out ''underwater_image'' = Some u \<and> shape u = [2, 2, 3] \<and>
           (\<forall>i<2. \<forall>j<2. \<forall>k<3.
              tget u [i, j, k] =
                clamp (fadd (tget (unsqueeze0 ex_image) [0, k, i, j])
                            (tget \<lparr>shape = [1, 3, 2, 2], data = replicate 12 (Fin 0.25)\<rparr> [0, k, i, j]))
                      (Fin 0) (Fin 1))" ..
  then obtain u where p: "get_outputs_for_camera_ray_bundle ex_env ex_seathru ex_bundle = Inr out \<and>
           out ''underwater_image'' = Some u \<and> shape u = [2, 2, 3] \<and>
           (\<forall>i<2. \<forall>j<2. \<forall>k<3.
              tget u [i, j, k] =
                clamp (fadd (tget (unsqueeze0 ex_image) [0, k, i, j])
                            (tget \<lparr>shape = [1, 3, 2, 2], data = replicate 12 (Fin 0.25)\<rparr> [0, k, i, j]))
                      (Fin 0) (Fin 1))" ..
  from p have o: "get_outputs_for_camera_ray_bundle ex_env ex_seathru ex_bundle = Inr out"
    by (rule conjunct1)
  from p have ou: "out ''underwater_image'' = Some u"
    by (rule conjunct2 [THEN conjunct1])
  note el = p [THEN conjunct2, THEN conjunct2, THEN conjunct2, rule_format]
  have "tget u [0, 0, 0] =
          clamp (fadd (tget (unsqueeze0 ex_image) [0, 0, 0, 0])
                      (tget \<lparr>shape = [1, 3, 2, 2], data = replicate 12 (Fin 0.25)\<rparr> [0, 0, 0, 0]))
                (Fin 0) (Fin 1)"
    by (rule el) simp_all
  then have "tget u [0, 0, 0] = Fin 0.45"
    by (simp only: ex_underwater_values(1))
  moreover have "tget u [1, 0, 0] =
          clamp (fadd (tget (unsqueeze0 ex_image) [0, 0, 1, 0])
                      (tget \<lparr>shape = [1, 3, 2, 2], data = replicate 12 (Fin 0.25)\<rparr> [0, 0, 1, 0]))
                (Fin 0) (Fin 1)"
    by (rule el) simp_all
  then have "tget u [1, 0, 0] = Fin 1"
    by (simp only: ex_underwater_values(2))
  ultimately show ?thesis
    by (simp add: o ou output_at_def ex_seathru_fields(6))
qed



subsection \<open>Construction\<close>

text \<open>
  C10: underwater compositing is enabled if and only if both path arguments differ from
  the string \<open>"None"\<close>, and a constructed object holds both models exactly then. When it
  is enabled the constructor loads both models: a failing load is the failure of the
  constructor and two successful loads give an object with compositing enabled.
  Otherwise nothing is loaded. In particular, with both paths left at the default
  Python \<open>None\<close> the constructor loads from \<open>None\<close> and, if that succeeds, enables
  compositing; it does not fall back to the clean render and depth pair.
\<close>

theorem seathru_enabled_by_paths:
  fixes env :: "'w externals"
  shows "(\<forall>st. GaussianSplatting_init env cfg pc mp li ot bsp atp = Inr st \<longrightarrow>
            (do_seathru st \<longleftrightarrow> atp \<noteq> Some ''None'' \<and> bsp \<noteq> Some ''None'') \<and>
            (do_seathru st \<longleftrightarrow> at_model st \<noteq> None \<and> bs_model st \<noteq> None)) \<and>
         (atp \<noteq> Some ''None'' \<and> bsp \<noteq> Some ''None'' \<longrightarrow>
            (\<forall>e. torch_load env atp = Inl e \<longrightarrow>
                 GaussianSplatting_init env cfg pc mp li ot bsp atp = Inl e) \<and>
            (\<forall>a e. torch_load env atp = Inr a \<and> torch_load env bsp = Inl e \<longrightarrow>
                 GaussianSplatting_init env cfg pc mp li ot bsp atp = Inl e) \<and>
            (\<forall>a b. torch_load env atp = Inr a \<and> torch_load env bsp = Inr b \<longrightarrow>
                 (\<exists>st. GaussianSplatting_init env cfg pc mp li ot bsp atp = Inr st \<and>
                       do_seathru st \<and> at_model st = Some a \<and> bs_model st = Some b))) \<and>
         (atp = Some ''None'' \<or> bsp = Some ''None'' \<longrightarrow>
            (\<exists>st. GaussianSplatting_init env cfg pc mp li ot bsp atp = Inr st \<and>
                  \<not> do_seathru st \<and> at_model st = None \<and> bs_model st = None)) \<and>
         (atp = None \<and> bsp = None \<longrightarrow>
            GaussianSplatting_init env cfg pc mp li ot bsp atp =
              bind_err (torch_load env None) (\<lambda>a. bind_err (torch_load env None) (\<lambda>b.
                Inr \<lparr>config = cfg, model_path = mp, load_iteration = li, orientation_transform = ot,
                     pipeline_params = PipelineParams_init,
                     bg_color = (if background_color cfg = ''black'' then [0, 0, 0] else [1, 1, 1]),
                     scaling_modifier_slider = 1, do_seathru = True,
                     at_model = Some a, bs_model = Some b, gaussian_model = pc\<rparr>)))"
  by (auto simp: GaussianSplatting_init_def bind_err_def Let_def split: sum.splits)

theorem seathru_enabled_by_paths_witness:
  "torch_load ex_env None = Inl AttributeError \<and>
   GaussianSplatting_init ex_env ex_config ex_pc (Some ''out'') (- 1) None None None = Inl AttributeError \<and>
   GaussianSplatting_init ex_env ex_config ex_pc (Some ''out'') (- 1) None (Some ''None'') (Some ''None'')
     = Inr ex_plain \<and> \<not> do_seathru ex_plain"
proof -
  have l: "torch_load ex_env None = Inl AttributeError" by (simp add: ex_env_def)
  note t = seathru_enabled_by_paths [of ex_env ex_config ex_pc "Some ''out''" "- 1" None None None]
  have n: "(None :: string option) \<noteq> Some ''None'' \<and> (None :: string option) \<noteq> Some ''None''" by simp
  from t [THEN conjunct2, THEN conjunct1, THEN mp, OF n, THEN conjunct1, rule_format, OF l]
  have "GaussianSplatting_init ex_env ex_config ex_pc (Some ''out'') (- 1) None None None = Inl AttributeError" .
  then show ?thesis
    by (simp add: l ex_init_plain ex_plain_fields(6))
qed

end
